theory Spec2Isabelle
  imports Complex_Main "HOL-Library.Word" "HOL-Library.Signed_Division"
begin

unbundle bit_operations_syntax

section \<open>Types, errors and the dispatch key (ln_api.cpp, lines 27--56)\<close>

text \<open>
  \<open>torch::Dtype\<close>: the scalar types a tensor can carry. The dispatch layer names
  \<open>kFloat16\<close>, \<open>kBFloat16\<close>, \<open>kFloat32\<close>, \<open>kUInt8\<close>, \<open>kInt32\<close> and \<open>kChar\<close>; the others
  stand for the precisions it does not support.
\<close>

datatype dtype =
    kUInt8 | kChar | kInt16 | kInt32 | kInt64
  | kFloat16 | kFloat32 | kFloat64 | kBool | kBFloat16

text \<open>The three element types of \<open>ln.h\<close> that \<open>TypeId<T>\<close> is specialised for.\<close>

datatype ln_type = fp16 | bf16 | fp32

text \<open>
  Every way a call can throw. \<open>CheckFailed l\<close> is the \<open>TORCH_CHECK\<close> at line \<open>l\<close> of
  \<open>dropout_add_ln_fwd\<close>; \<open>IndexOutOfRange\<close> is \<open>Tensor::size(d)\<close> on a tensor with no
  dimension \<open>d\<close>; \<open>NegativeDimension\<close> is \<open>torch::empty\<close> given a negative extent;
  \<open>TypeNotSupported\<close> is thrown by \<open>get_type_id\<close> and \<open>UnsupportedConfig\<close> by
  \<open>get_fwd_launcher\<close>, with the values their messages print.
\<close>

datatype error =
    CheckFailed nat
  | IndexOutOfRange
  | NegativeDimension
  | TypeNotSupported dtype
  | UnsupportedConfig "32 word" dtype dtype dtype dtype dtype

definition and_then :: "error + 'a \<Rightarrow> ('a \<Rightarrow> error + 'b) \<Rightarrow> error + 'b" where
  "and_then m f = (case m of Inl e \<Rightarrow> Inl e | Inr v \<Rightarrow> f v)"

text \<open>
  \<open>get_type_id\<close> (lines 35--45). The constants \<open>TypeId<T>::Value\<close> are declared in
  \<open>ln.h\<close>, which is not part of the sources at hand, so the table is the parameter
  \<open>TypeId\<close>.
\<close>

definition get_type_id :: "(ln_type \<Rightarrow> 32 word) \<Rightarrow> dtype \<Rightarrow> error + 32 word" where
  "get_type_id TypeId dt =
     (if dt = kFloat16 then Inr (TypeId fp16)
      else if dt = kBFloat16 then Inr (TypeId bf16)
      else if dt = kFloat32 then Inr (TypeId fp32)
      else Inl (TypeNotSupported dt))"

text \<open>
  \<open>get_key\<close> (lines 49--54). The type key is assembled in 32-bit arithmetic, widened
  to 64 bits, shifted above the hidden size and joined with it. C++ does not fix the
  order in which the five \<open>get_type_id\<close> calls run; the model runs them left to right,
  which only decides which unsupported type an error names.
\<close>

definition get_key ::
  "(ln_type \<Rightarrow> 32 word) \<Rightarrow> dtype \<Rightarrow> dtype \<Rightarrow> dtype \<Rightarrow> dtype \<Rightarrow> dtype \<Rightarrow> 64 word
     \<Rightarrow> error + 64 word" where
  "get_key TypeId wtype itype rtype otype ctype hidden_size =
     and_then (get_type_id TypeId wtype) (\<lambda>w.
     and_then (get_type_id TypeId itype) (\<lambda>i.
     and_then (get_type_id TypeId rtype) (\<lambda>r.
     and_then (get_type_id TypeId otype) (\<lambda>o'.
     and_then (get_type_id TypeId ctype) (\<lambda>c.
       let type_key = (ucast (w OR push_bit 2 i OR push_bit 4 r OR push_bit 6 o' OR push_bit 8 c)
                         :: 64 word);
           launcher_key = push_bit 32 type_key OR hidden_size
       in Inr launcher_key)))))"


section \<open>Floats, tensors and the call (lines 71--86)\<close>

text \<open>
  A \<open>float\<close> argument is only ever compared with \<open>0.f\<close> and \<open>1.f\<close>. The model keeps
  what a comparison can see: not-a-number, the two infinities and the finite values.
  Every comparison with \<open>NaN\<close> is false, as in IEEE 754.
\<close>

datatype float = NaN | NegInf | Finite real | PosInf

fun float_less :: "float \<Rightarrow> float \<Rightarrow> bool" where
  "float_less NaN b = False"
| "float_less a NaN = False"
| "float_less a NegInf = False"
| "float_less PosInf b = False"
| "float_less NegInf b = True"
| "float_less (Finite a) PosInf = True"
| "float_less (Finite a) (Finite b) = (a < b)"

fun float_le :: "float \<Rightarrow> float \<Rightarrow> bool" where
  "float_le NaN b = False"
| "float_le a NaN = False"
| "float_le NegInf b = True"
| "float_le a PosInf = True"
| "float_le a NegInf = False"
| "float_le PosInf b = False"
| "float_le (Finite a) (Finite b) = (a \<le> b)"

text \<open>
  What the dispatch layer reads of an \<open>at::Tensor\<close>: its scalar type, its extents, and
  whether it lives on the device and is contiguous.
\<close>

record tensor =
  scalar_type :: dtype
  sizes :: "nat list"
  is_cuda :: bool
  is_contiguous :: bool

definition dim :: "tensor \<Rightarrow> nat" where
  "dim t = length (sizes t)"

definition numel :: "tensor \<Rightarrow> nat" where
  "numel t = prod_list (sizes t)"

text \<open>\<open>Tensor::size(d)\<close> throws when the tensor has no dimension \<open>d\<close>.\<close>

definition size_at :: "tensor \<Rightarrow> nat \<Rightarrow> error + nat" where
  "size_at t d = (if d < length (sizes t) then Inr (sizes t ! d) else Inl IndexOutOfRange)"

definition has_value :: "'a option \<Rightarrow> bool" where
  "has_value v = (case v of None \<Rightarrow> False | Some y \<Rightarrow> True)"

text \<open>
  The arguments of \<open>dropout_add_ln_fwd\<close>. The optional arguments \<open>residual_\<close>,
  \<open>beta_\<close>, \<dots> of the source end in an underscore, which a HOL name cannot; they are
  \<open>residual_opt\<close>, \<open>beta_opt\<close>, \<dots> here. \<open>gen_opt\<close> is the handle of the generator
  passed in, if any.
\<close>

record fwd_call =
  x0 :: tensor
  residual_opt :: "tensor option"
  gamma :: tensor
  beta_opt :: "tensor option"
  rowscale_opt :: "tensor option"
  colscale_opt :: "tensor option"
  x0_subset_opt :: "tensor option"
  z_subset_opt :: "tensor option"
  dropout_p :: float
  epsilon :: float
  rowscale_const :: float
  z_numrows :: int
  gen_opt :: "nat option"
  residual_in_fp32 :: bool
  is_rms_norm :: bool

section \<open>Launch parameters, launchers and the registry\<close>

text \<open>
  The payload \<open>FwdParams\<close> is declared in \<open>ln.h\<close>, which is not part of the sources
  at hand; the record has the fields the source assigns (lines 183--214, 229, 237, 238),
  each prefixed \<open>p_\<close>. A pointer field holds the tensor it points into, or
  \<open>None\<close> for \<open>nullptr\<close>. The fields \<open>dropout_keep_p\<close>, \<open>dropout_scale\<close> and
  \<open>inverse_cols\<close> are computed in float arithmetic from \<open>dropout_p\<close> and \<open>cols\<close>; the
  model carries \<open>dropout_p\<close> in their place. \<open>p_philox_args\<close> is the seed and offset
  pair, \<open>None\<close> while unset.
\<close>

record fwd_params =
  p_rows :: int
  p_cols :: int
  p_x0 :: tensor
  p_x :: "tensor option"
  p_dmask :: "tensor option"
  p_mu :: tensor
  p_rs :: tensor
  p_gamma :: tensor
  p_beta :: "tensor option"
  p_z :: tensor
  p_residual :: "tensor option"
  p_rowscale :: "tensor option"
  p_colscale :: "tensor option"
  p_x0_subset :: "tensor option"
  p_z_subset :: "tensor option"
  p_epsilon :: float
  p_dropout_p :: float
  p_rowscale_const :: float
  p_is_rms_norm :: bool
  p_philox_args :: "(nat \<times> nat) option"
  p_workspace :: "tensor option"
  p_barrier :: "tensor option"

text \<open>
  \<open>LaunchParams\<close>, also of \<open>ln.h\<close>: the device properties and the stream, the three
  sizes the Query phase reports (counts, so naturals), and the payload.
\<close>

record launch_params =
  props :: nat
  stream :: nat
  elts_per_thread :: nat
  barrier_size :: nat
  workspace_bytes :: nat
  params :: fwd_params

text \<open>
  Modelled from the spec: the launcher bodies are in the kernel files, which are not part
  of the sources at hand. A launcher called in the Query phase computes three numbers
  from the launch parameters it is given: the number of per-thread random draws, the
  barrier element count and the scratch byte count. What it does in the Execute phase
  happens on the device and is recorded as an event only. \<open>FwdRegistry FWD_FUNCS\<close>
  (line 31) maps a key to a launcher.
\<close>

record query_report =
  q_elts_per_thread :: nat
  q_barrier_size :: nat
  q_workspace_bytes :: nat

type_synonym launcher = "launch_params \<Rightarrow> query_report"

text \<open>\<open>launcher(launch_params, true)\<close>: the Query phase fills in the three sizes.\<close>

definition run_query :: "launcher \<Rightarrow> launch_params \<Rightarrow> launch_params" where
  "run_query l lp =
     lp\<lparr>elts_per_thread := q_elts_per_thread (l lp),
        barrier_size := q_barrier_size (l lp),
        workspace_bytes := q_workspace_bytes (l lp)\<rparr>"

text \<open>
  \<open>get_fwd_launcher\<close> (lines 60--67): the 32-bit hidden size is widened for \<open>get_key\<close>,
  and a miss throws with the hidden size and the five types.
\<close>

definition get_fwd_launcher ::
  "(ln_type \<Rightarrow> 32 word) \<Rightarrow> (64 word \<rightharpoonup> launcher)
     \<Rightarrow> dtype \<Rightarrow> dtype \<Rightarrow> dtype \<Rightarrow> dtype \<Rightarrow> dtype \<Rightarrow> 32 word \<Rightarrow> error + launcher" where
  "get_fwd_launcher TypeId FWD_FUNCS wtype itype rtype otype ctype hidden_size =
     and_then (get_key TypeId wtype itype rtype otype ctype (ucast hidden_size)) (\<lambda>key.
       case FWD_FUNCS key of
         Some l \<Rightarrow> Inr l
       | None \<Rightarrow> Inl (UnsupportedConfig hidden_size wtype itype rtype otype ctype))"


section \<open>The world a call runs in\<close>

text \<open>
  Modelled from the spec: the random generator (\<open>at::CUDAGeneratorImpl\<close>) belongs to the
  tensor runtime, outside the sources at hand. \<open>philox_cuda_state\<close> returns the current
  seed and offset and advances the offset by the increment it is given.
\<close>

record generator =
  seed :: nat
  philox_offset_per_thread :: nat

definition philox_cuda_state :: "generator \<Rightarrow> nat \<Rightarrow> (nat \<times> nat) \<times> generator" where
  "philox_cuda_state g increment =
     ((seed g, philox_offset_per_thread g),
      g\<lparr>philox_offset_per_thread := philox_offset_per_thread g + increment\<rparr>)"

text \<open>
  What a call does besides returning is recorded as a trace of events: a buffer taken
  from the allocator uninitialised (\<open>torch::empty\<close>) or zeroed (\<open>torch::zeros\<close>), named
  after the variable it is bound to; a call of a launcher with its phase flag and the
  launch parameters it is handed; an advance of a generator, by handle. The generators are
  shared, mutable state, kept in a store indexed by handle.
\<close>

datatype buffer = Buf_x | Buf_dmask | Buf_z | Buf_mu | Buf_rsigma | Buf_barrier | Buf_workspace

datatype event =
    Empty buffer tensor
  | Zeros buffer tensor
  | Launch launcher bool launch_params
  | PhiloxState nat nat

record world =
  trace :: "event list"
  gens :: "nat \<Rightarrow> generator"

text \<open>
  The process-wide parts: the \<open>TypeId\<close> table, the registry, the current device's
  properties and stream, and the handle of the default generator.
\<close>

record ln_env =
  TypeId :: "ln_type \<Rightarrow> 32 word"
  FWD_FUNCS :: "64 word \<rightharpoonup> launcher"
  device_props :: nat
  current_stream :: nat
  default_generator :: nat

type_synonym 'a step = "world \<Rightarrow> (error + 'a) \<times> world"

definition bind_w :: "'a step \<Rightarrow> ('a \<Rightarrow> 'b step) \<Rightarrow> 'b step" where
  "bind_w m f w = (case m w of (Inl e, w') \<Rightarrow> (Inl e, w') | (Inr v, w') \<Rightarrow> f v w')"

definition ret_w :: "'a \<Rightarrow> 'a step" where
  "ret_w v w = (Inr v, w)"

definition lift_w :: "error + 'a \<Rightarrow> 'a step" where
  "lift_w m w = (m, w)"

definition record_events :: "event list \<Rightarrow> world \<Rightarrow> world" where
  "record_events evs w = w\<lparr>trace := trace w @ evs\<rparr>"

text \<open>
  \<open>torch::empty\<close> and \<open>torch::zeros\<close> throw on a negative extent; otherwise the buffer
  is contiguous and lives where the options say (\<open>x0.options()\<close>, lines 166 and 234).
\<close>

definition new_tensor :: "bool \<Rightarrow> int list \<Rightarrow> dtype \<Rightarrow> tensor" where
  "new_tensor on_cuda shape dt =
     \<lparr>scalar_type = dt, sizes = map nat shape, is_cuda = on_cuda, is_contiguous = True\<rparr>"

definition torch_empty :: "buffer \<Rightarrow> bool \<Rightarrow> int list \<Rightarrow> dtype \<Rightarrow> tensor step" where
  "torch_empty b on_cuda shape dt w =
     (if list_all (\<lambda>d. 0 \<le> d) shape
      then (Inr (new_tensor on_cuda shape dt),
            record_events [Empty b (new_tensor on_cuda shape dt)] w)
      else (Inl NegativeDimension, w))"

definition torch_zeros :: "buffer \<Rightarrow> bool \<Rightarrow> int list \<Rightarrow> dtype \<Rightarrow> tensor step" where
  "torch_zeros b on_cuda shape dt w =
     (if list_all (\<lambda>d. 0 \<le> d) shape
      then (Inr (new_tensor on_cuda shape dt),
            record_events [Zeros b (new_tensor on_cuda shape dt)] w)
      else (Inl NegativeDimension, w))"

section \<open>Validation (lines 87--160)\<close>

definition itype :: "fwd_call \<Rightarrow> dtype" where
  "itype c = scalar_type (x0 c)"

definition rtype :: "fwd_call \<Rightarrow> dtype" where
  "rtype c =
     (case residual_opt c of
        Some residual \<Rightarrow> scalar_type residual
      | None \<Rightarrow> (if residual_in_fp32 c then kFloat32 else scalar_type (x0 c)))"

definition wtype :: "fwd_call \<Rightarrow> dtype" where
  "wtype c = scalar_type (gamma c)"

definition otype :: "fwd_call \<Rightarrow> dtype" where
  "otype c = itype c"

definition ctype :: dtype where
  "ctype = kFloat32"

definition mtype :: dtype where
  "mtype = kUInt8"

text \<open>The narrowing of an \<open>int64_t\<close> to \<open>int\<close> (lines 108, 109 and 193).\<close>

definition to_int32 :: "int \<Rightarrow> int" where
  "to_int32 v = sint (word_of_int v :: 32 word)"

text \<open>
  A run of \<open>TORCH_CHECK\<close>s, each with its source line: the first one that fails throws.
\<close>

fun first_failed :: "(bool \<times> nat) list \<Rightarrow> nat option" where
  "first_failed [] = None"
| "first_failed ((ok, line) # cs) = (if ok then first_failed cs else Some line)"

definition check_all :: "(bool \<times> nat) list \<Rightarrow> error + unit" where
  "check_all cs = (case first_failed cs of None \<Rightarrow> Inr () | Some line \<Rightarrow> Inl (CheckFailed line))"

text \<open>\<open>sizes_vec\<close> (line 103): the two \<open>size\<close> calls run before the check of \<open>x0.dim()\<close>.\<close>

definition sizes_vec :: "fwd_call \<Rightarrow> error + nat list" where
  "sizes_vec c =
     and_then (case x0_subset_opt c of
                 None \<Rightarrow> size_at (x0 c) 0
               | Some x0_subset \<Rightarrow> size_at x0_subset 0) (\<lambda>s0.
     and_then (size_at (x0 c) 1) (\<lambda>s1.
       Inr [s0, s1]))"

definition rows_of :: "nat list \<Rightarrow> int" where
  "rows_of sv = to_int32 (int (sv ! 0))"

definition cols_of :: "nat list \<Rightarrow> int" where
  "cols_of sv = to_int32 (int (sv ! 1))"

definition hidden_size :: "fwd_call \<Rightarrow> int" where
  "hidden_size c = int (numel (gamma c))"

definition beta_checks :: "fwd_call \<Rightarrow> (bool \<times> nat) list" where
  "beta_checks c =
     (case beta_opt c of
        None \<Rightarrow> []
      | Some beta \<Rightarrow>
          [(scalar_type beta = wtype c, 115), (is_cuda beta, 116), (is_contiguous beta, 117),
           (sizes beta = sizes (gamma c), 118)])"

definition residual_checks :: "fwd_call \<Rightarrow> nat list \<Rightarrow> (bool \<times> nat) list" where
  "residual_checks c sv =
     (case residual_opt c of
        None \<Rightarrow> []
      | Some residual \<Rightarrow>
          [(is_cuda residual, 123), (is_contiguous residual, 124), (sizes residual = sv, 125)])"

definition rowscale_checks :: "fwd_call \<Rightarrow> nat list \<Rightarrow> (bool \<times> nat) list" where
  "rowscale_checks c sv =
     (case rowscale_opt c of
        None \<Rightarrow> []
      | Some rowscale \<Rightarrow>
          [(is_cuda rowscale, 130), (is_contiguous rowscale, 131),
           (map int (sizes rowscale) = [rows_of sv], 132), (scalar_type rowscale = itype c, 133)])"

definition colscale_checks :: "fwd_call \<Rightarrow> nat list \<Rightarrow> (bool \<times> nat) list" where
  "colscale_checks c sv =
     (case colscale_opt c of
        None \<Rightarrow> []
      | Some colscale \<Rightarrow>
          [(is_cuda colscale, 138), (is_contiguous colscale, 139),
           (map int (sizes colscale) = [cols_of sv], 140), (scalar_type colscale = wtype c, 141)])"

definition subset_checks :: "fwd_call \<Rightarrow> nat list \<Rightarrow> (bool \<times> nat) list" where
  "subset_checks c sv =
     (case x0_subset_opt c of
        None \<Rightarrow> []
      | Some x0_subset \<Rightarrow>
          [(is_cuda x0_subset, 146), (is_contiguous x0_subset, 147),
           (map int (sizes x0_subset) = [rows_of sv], 148), (scalar_type x0_subset = kInt32, 149),
           (has_value (z_subset_opt c), 151)]
          @ (case z_subset_opt c of
               None \<Rightarrow> []
             | Some z_subset \<Rightarrow>
                 [(is_cuda z_subset, 153), (is_contiguous z_subset, 154),
                  (map int (sizes z_subset) = [rows_of sv], 155),
                  (scalar_type z_subset = kInt32, 156)]))"

definition numeric_checks :: "fwd_call \<Rightarrow> (bool \<times> nat) list" where
  "numeric_checks c =
     [(hidden_size c mod 8 = 0 \<and> hidden_size c \<le> 8192, 159),
      (float_le (Finite 0) (epsilon c), 160)]"

text \<open>
  Lines 96--160 in order; the result is \<open>sizes_vec\<close>. The device guard of line 164 has
  no effect the model records.
\<close>

definition validate :: "fwd_call \<Rightarrow> error + nat list" where
  "validate c =
     and_then (check_all [(is_cuda (x0 c), 96), (is_cuda (gamma c), 97),
                          (is_contiguous (x0 c), 99)]) (\<lambda>_.
     and_then (sizes_vec c) (\<lambda>sv.
     and_then (check_all ([(dim (x0 c) = 2, 105), (length sv = 2, 106),
                           (hidden_size c = cols_of sv, 111)]
                          @ beta_checks c @ residual_checks c sv @ rowscale_checks c sv
                          @ colscale_checks c sv @ subset_checks c sv @ numeric_checks c)) (\<lambda>_.
       Inr sv)))"


section \<open>Buffers, launcher lookup and the two launches (lines 166--244)\<close>

definition save_x :: "fwd_call \<Rightarrow> bool" where
  "save_x c =
     (has_value (residual_opt c) \<or> float_less (Finite 0) (dropout_p c)
      \<or> has_value (rowscale_opt c) \<or> has_value (colscale_opt c)
      \<or> has_value (x0_subset_opt c) \<or> itype c \<noteq> rtype c)"

text \<open>The five tensors the call returns; \<open>None\<close> is a tensor left undefined.\<close>

record outputs =
  o_z :: tensor
  o_x :: "tensor option"
  o_dmask :: "tensor option"
  o_mu :: tensor
  o_rsigma :: tensor

text \<open>Lines 169--176, in the order the source allocates.\<close>

definition alloc_outputs :: "fwd_call \<Rightarrow> nat list \<Rightarrow> outputs step" where
  "alloc_outputs c sv =
     bind_w (if save_x c
             then bind_w (torch_empty Buf_x (is_cuda (x0 c)) (map int sv) (rtype c))
                    (\<lambda>t. ret_w (Some t))
             else ret_w None) (\<lambda>x.
     bind_w (if float_less (Finite 0) (dropout_p c)
             then bind_w (torch_empty Buf_dmask (is_cuda (x0 c)) (map int (sizes (x0 c))) mtype)
                    (\<lambda>t. ret_w (Some t))
             else ret_w None) (\<lambda>dmask.
     bind_w (torch_empty Buf_z (is_cuda (x0 c))
               (if has_value (z_subset_opt c) then [z_numrows c, cols_of sv] else map int sv)
               (otype c)) (\<lambda>z.
     bind_w (torch_empty Buf_mu (is_cuda (x0 c)) [rows_of sv] ctype) (\<lambda>mu.
     bind_w (torch_empty Buf_rsigma (is_cuda (x0 c)) [rows_of sv] ctype) (\<lambda>rsigma.
       ret_w \<lparr>o_z = z, o_x = x, o_dmask = dmask, o_mu = mu, o_rsigma = rsigma\<rparr>)))))"

text \<open>
  The lambda \<open>round_multiple\<close> and the constant \<open>multiple\<close> (lines 193, 194). The
  division is C's, which truncates. The lambda computes in \<open>int\<close>; its argument is at
  most 8192 when line 193 is reached, so the sum cannot overflow.
\<close>

definition round_multiple :: "int \<Rightarrow> int \<Rightarrow> int" where
  "round_multiple x m = (x + m - 1) sdiv m * m"

definition multiple :: "int \<Rightarrow> int" where
  "multiple hs = (if hs \<le> 1536 then 256 else if hs \<le> 3072 then 512 else 1024)"

text \<open>The hidden size handed to \<open>get_fwd_launcher\<close> (line 196), as the \<open>uint32_t\<close> it takes.\<close>

definition padded_hidden_size :: "fwd_call \<Rightarrow> 32 word" where
  "padded_hidden_size c =
     word_of_int (round_multiple (to_int32 (hidden_size c)) (multiple (hidden_size c)))"

text \<open>The payload as it stands at line 214.\<close>

definition build_params :: "fwd_call \<Rightarrow> nat list \<Rightarrow> outputs \<Rightarrow> fwd_params" where
  "build_params c sv outs =
     \<lparr>p_rows = rows_of sv,
      p_cols = cols_of sv,
      p_x0 = x0 c,
      p_x = (if save_x c then o_x outs else None),
      p_dmask = (if float_less (Finite 0) (dropout_p c) then o_dmask outs else None),
      p_mu = o_mu outs,
      p_rs = o_rsigma outs,
      p_gamma = gamma c,
      p_beta = beta_opt c,
      p_z = o_z outs,
      p_residual = residual_opt c,
      p_rowscale = rowscale_opt c,
      p_colscale = colscale_opt c,
      p_x0_subset = x0_subset_opt c,
      p_z_subset = z_subset_opt c,
      p_epsilon = epsilon c,
      p_dropout_p = dropout_p c,
      p_rowscale_const = rowscale_const c,
      p_is_rms_norm = is_rms_norm c,
      p_philox_args = None,
      p_workspace = None,
      p_barrier = None\<rparr>"

text \<open>
  A call of the launcher (lines 217 and 242). In the Query phase the three sizes come
  back in the launch parameters; the Execute phase leaves them as they are.
\<close>

definition launch :: "launcher \<Rightarrow> bool \<Rightarrow> launch_params \<Rightarrow> launch_params step" where
  "launch l configure_params lp w =
     (Inr (if configure_params then run_query l lp else lp),
      record_events [Launch l configure_params lp] w)"

text \<open>
  Lines 224--230: the generator is the one passed in or the default one (line 190); its
  state is read and advanced by \<open>counter_offset\<close> under its lock.
\<close>

definition get_generator_or_default :: "nat option \<Rightarrow> nat \<Rightarrow> nat" where
  "get_generator_or_default g d = (case g of Some h \<Rightarrow> h | None \<Rightarrow> d)"

definition draw_philox :: "ln_env \<Rightarrow> fwd_call \<Rightarrow> launch_params \<Rightarrow> launch_params step" where
  "draw_philox env c lp w =
     (let gen = get_generator_or_default (gen_opt c) (default_generator env);
          counter_offset = elts_per_thread lp;
          (state, g') = philox_cuda_state (gens w gen) counter_offset
      in (Inr (lp\<lparr>params := (params lp)\<lparr>p_philox_args := Some state\<rparr>\<rparr>),
          record_events [PhiloxState gen counter_offset] (w\<lparr>gens := (gens w)(gen := g')\<rparr>)))"

text \<open>Lines 234--238: the barrier is zeroed, the workspace is not.\<close>

definition alloc_scratch :: "fwd_call \<Rightarrow> launch_params \<Rightarrow> launch_params step" where
  "alloc_scratch c lp =
     bind_w (torch_zeros Buf_barrier (is_cuda (x0 c)) [int (barrier_size lp)] kInt32) (\<lambda>barrier.
     bind_w (torch_empty Buf_workspace (is_cuda (x0 c)) [int (workspace_bytes lp)] kChar)
       (\<lambda>workspace.
       ret_w (lp\<lparr>params := (params lp)\<lparr>p_workspace := Some workspace,
                                          p_barrier := Some barrier\<rparr>\<rparr>)))"

text \<open>
  \<open>launch_params\<close> as it stands at line 216. The three sizes of a fresh \<open>LaunchParams\<close>
  are not yet set before the Query phase; they are 0 here.
\<close>

definition init_launch_params :: "ln_env \<Rightarrow> fwd_call \<Rightarrow> nat list \<Rightarrow> outputs \<Rightarrow> launch_params" where
  "init_launch_params env c sv outs =
     \<lparr>props = device_props env, stream = current_stream env, elts_per_thread = 0,
      barrier_size = 0, workspace_bytes = 0, params = build_params c sv outs\<rparr>"

text \<open>Lines 216--244, once the launcher is known.\<close>

definition run_launch ::
  "ln_env \<Rightarrow> fwd_call \<Rightarrow> nat list \<Rightarrow> outputs \<Rightarrow> launcher \<Rightarrow> (tensor option list) step" where
  "run_launch env c sv outs l =
     bind_w (launch l True (init_launch_params env c sv outs)) (\<lambda>lp1.
     bind_w (if float_less (Finite 0) (dropout_p c) then draw_philox env c lp1 else ret_w lp1)
       (\<lambda>lp2.
     bind_w (if 0 < barrier_size lp2 then alloc_scratch c lp2 else ret_w lp2) (\<lambda>lp3.
     bind_w (launch l False lp3) (\<lambda>_.
       ret_w [Some (o_z outs), o_x outs, o_dmask outs, Some (o_mu outs),
              Some (o_rsigma outs)]))))"

text \<open>
  \<open>dropout_add_ln_fwd\<close> (lines 71--245): validation, the output buffers, the check of
  \<open>dropout_p\<close> (line 182), the launcher lookup (line 196), and the two launches.
\<close>

definition dropout_add_ln_fwd :: "ln_env \<Rightarrow> fwd_call \<Rightarrow> (tensor option list) step" where
  "dropout_add_ln_fwd env c =
     bind_w (lift_w (validate c)) (\<lambda>sv.
     bind_w (alloc_outputs c sv) (\<lambda>outs.
     bind_w (lift_w (check_all [(float_less (dropout_p c) (Finite 1), 182)])) (\<lambda>_.
     bind_w (lift_w (get_fwd_launcher (TypeId env) (FWD_FUNCS env) (wtype c) (itype c)
                       (rtype c) (otype c) ctype (padded_hidden_size c))) (\<lambda>l.
       run_launch env c sv outs l))))"


section \<open>Notions the properties are stated with\<close>

text \<open>The events a call adds to the trace, given the world before and after it.\<close>

definition new_events :: "world \<Rightarrow> world \<Rightarrow> event list" where
  "new_events w w' = drop (length (trace w)) (trace w')"

text \<open>An allocation of one of the five returned buffers.\<close>

fun is_output_alloc :: "event \<Rightarrow> bool" where
  "is_output_alloc (Empty b t) =
     (b = Buf_x \<or> b = Buf_dmask \<or> b = Buf_z \<or> b = Buf_mu \<or> b = Buf_rsigma)"
| "is_output_alloc ev = False"

text \<open>
  The errors thrown because an argument of the call breaks a contract on it: a failed
  \<open>TORCH_CHECK\<close> of \<open>dropout_add_ln_fwd\<close>, or the tensor runtime refusing a dimension
  index or a negative extent. The other two are thrown by \<open>get_type_id\<close> and
  \<open>get_fwd_launcher\<close>.
\<close>

fun precondition_violation :: "error \<Rightarrow> bool" where
  "precondition_violation (CheckFailed line) = True"
| "precondition_violation IndexOutOfRange = True"
| "precondition_violation NegativeDimension = True"
| "precondition_violation (TypeNotSupported dt) = False"
| "precondition_violation (UnsupportedConfig h w i r o' c) = False"

text \<open>The launch parameters of the calls in one phase, in trace order.\<close>

fun launches :: "bool \<Rightarrow> event list \<Rightarrow> (launcher \<times> launch_params) list" where
  "launches phase [] = []"
| "launches phase (Launch l b lp # evs) =
     (if b = phase then (l, lp) # launches phase evs else launches phase evs)"
| "launches phase (ev # evs) = launches phase evs"

section \<open>A small registry and some calls\<close>

definition ex_TypeId :: "ln_type \<Rightarrow> 32 word" where
  "ex_TypeId t = (case t of fp16 \<Rightarrow> 0 | bf16 \<Rightarrow> 1 | fp32 \<Rightarrow> 2)"

definition ex_launcher :: launcher where
  "ex_launcher lp = \<lparr>q_elts_per_thread = 8, q_barrier_size = 0, q_workspace_bytes = 0\<rparr>"

definition ex_launcher_wide :: launcher where
  "ex_launcher_wide lp = \<lparr>q_elts_per_thread = 16, q_barrier_size = 4, q_workspace_bytes = 1024\<rparr>"

text \<open>
  All five types \<open>fp32\<close>: the type key is \<open>682\<close>, so hidden size 256 has key
  \<open>682 * 2 ^ 32 + 256\<close> and hidden size 8192 has key \<open>682 * 2 ^ 32 + 8192\<close>.
\<close>

definition ex_env :: ln_env where
  "ex_env =
     \<lparr>TypeId = ex_TypeId,
      FWD_FUNCS = [2929167696128 \<mapsto> ex_launcher, 2929167704064 \<mapsto> ex_launcher_wide],
      device_props = 0, current_stream = 0, default_generator = 0\<rparr>"

definition ex_tensor :: "dtype \<Rightarrow> nat list \<Rightarrow> tensor" where
  "ex_tensor dt shape =
     \<lparr>scalar_type = dt, sizes = shape, is_cuda = True, is_contiguous = True\<rparr>"

definition ex_world :: world where
  "ex_world = \<lparr>trace = [], gens = (\<lambda>h. \<lparr>seed = 42, philox_offset_per_thread = 100\<rparr>)\<rparr>"

text \<open>Four rows of 256 columns, \<open>fp32\<close> throughout, nothing optional.\<close>

definition ex_call :: fwd_call where
  "ex_call =
     \<lparr>x0 = ex_tensor kFloat32 [4, 256], residual_opt = None, gamma = ex_tensor kFloat32 [256],
      beta_opt = None, rowscale_opt = None, colscale_opt = None, x0_subset_opt = None,
      z_subset_opt = None, dropout_p = Finite 0, epsilon = Finite 0, rowscale_const = Finite 1,
      z_numrows = 0, gen_opt = None, residual_in_fp32 = False, is_rms_norm = False\<rparr>"


text \<open>The same call with half of the elements dropped.\<close>

definition ex_call_dropout :: fwd_call where
  "ex_call_dropout = ex_call\<lparr>dropout_p := Finite (1 / 2)\<rparr>"


definition ex_call_512 :: fwd_call where
  "ex_call_512 = ex_call\<lparr>x0 := ex_tensor kFloat32 [4, 512], gamma := ex_tensor kFloat32 [512]\<rparr>"


definition ex_call_p1 :: fwd_call where
  "ex_call_p1 = ex_call\<lparr>dropout_p := Finite 1\<rparr>"

definition ex_call_nan :: fwd_call where
  "ex_call_nan = ex_call\<lparr>dropout_p := NaN\<rparr>"

definition ex_call_neg_eps :: fwd_call where
  "ex_call_neg_eps = ex_call\<lparr>epsilon := Finite (- 1)\<rparr>"


text \<open>A call with a row-scatter index only: a host tensor of seven floats, and two output rows.\<close>

definition ex_call_z_only :: fwd_call where
  "ex_call_z_only =
     ex_call\<lparr>z_subset_opt :=
                Some \<lparr>scalar_type = kFloat32, sizes = [7], is_cuda = False, is_contiguous = False\<rparr>,
             z_numrows := 2\<rparr>"

text \<open>Hidden size 8192, whose launcher asks for a barrier and a workspace.\<close>

definition ex_call_8192 :: fwd_call where
  "ex_call_8192 = ex_call\<lparr>x0 := ex_tensor kFloat32 [4, 8192], gamma := ex_tensor kFloat32 [8192]\<rparr>"

text \<open>Two of the four rows gathered, three output rows, dropout active.\<close>

definition ex_call_subset :: fwd_call where
  "ex_call_subset =
     ex_call\<lparr>x0_subset_opt := Some (ex_tensor kInt32 [2]),
             z_subset_opt := Some (ex_tensor kInt32 [2]),
             z_numrows := 3, dropout_p := Finite (1 / 2)\<rparr>"

section \<open>How a call unfolds\<close>

lemma bind_w_Inr_iff:
  "(bind_w m f w = (Inr v, w')) = (\<exists>u w1. m w = (Inr u, w1) \<and> f u w1 = (Inr v, w'))"
  by (cases "m w"; cases "fst (m w)") (auto simp: bind_w_def)

lemma bind_w_Inl_iff:
  "(bind_w m f w = (Inl e, w')) =
     (m w = (Inl e, w') \<or> (\<exists>u w1. m w = (Inr u, w1) \<and> f u w1 = (Inl e, w')))"
  by (cases "m w"; cases "fst (m w)") (auto simp: bind_w_def)

lemma lift_w_iff: "(lift_w m w = (r, w')) = (m = r \<and> w' = w)"
  by (auto simp: lift_w_def)

lemma ret_w_iff: "(ret_w v w = (r, w')) = (r = Inr v \<and> w' = w)"
  by (auto simp: ret_w_def)

lemma list_all_nonneg_int: "list_all (\<lambda>d. 0 \<le> d) (map int xs)"
  by (simp add: list_all_iff)

lemma torch_empty_iff:
  "(torch_empty b on shape dt w = (r, w')) =
     (if list_all (\<lambda>d. 0 \<le> d) shape
      then r = Inr (new_tensor on shape dt) \<and> w' = record_events [Empty b (new_tensor on shape dt)] w
      else r = Inl NegativeDimension \<and> w' = w)"
  by (auto simp: torch_empty_def)

lemma torch_zeros_iff:
  "(torch_zeros b on shape dt w = (r, w')) =
     (if list_all (\<lambda>d. 0 \<le> d) shape
      then r = Inr (new_tensor on shape dt) \<and> w' = record_events [Zeros b (new_tensor on shape dt)] w
      else r = Inl NegativeDimension \<and> w' = w)"
  by (auto simp: torch_zeros_def)

lemma new_events_refl [simp]: "new_events w w = []"
  by (simp add: new_events_def)

lemma new_events_record [simp]: "new_events w (record_events evs w) = evs"
  by (simp add: new_events_def record_events_def)

lemma trace_record [simp]: "trace (record_events evs w) = trace w @ evs"
  by (simp add: record_events_def)

lemma gens_record [simp]: "gens (record_events evs w) = gens w"
  by (simp add: record_events_def)

lemma alloc_outputs_Inr:
  assumes "alloc_outputs c sv w = (Inr ob, w1)"
  shows "o_x ob = (if save_x c then Some (new_tensor (is_cuda (x0 c)) (map int sv) (rtype c)) else None)"
    and "o_dmask ob = (if float_less (Finite 0) (dropout_p c)
                       then Some (new_tensor (is_cuda (x0 c)) (map int (sizes (x0 c))) mtype) else None)"
    and "o_z ob = new_tensor (is_cuda (x0 c))
                    (if has_value (z_subset_opt c) then [z_numrows c, cols_of sv] else map int sv) (otype c)"
    and "o_mu ob = new_tensor (is_cuda (x0 c)) [rows_of sv] ctype"
    and "o_rsigma ob = new_tensor (is_cuda (x0 c)) [rows_of sv] ctype"
    and "gens w1 = gens w"
    and "trace w1 = trace w
           @ (if save_x c then [Empty Buf_x (new_tensor (is_cuda (x0 c)) (map int sv) (rtype c))] else [])
           @ (if float_less (Finite 0) (dropout_p c)
              then [Empty Buf_dmask (new_tensor (is_cuda (x0 c)) (map int (sizes (x0 c))) mtype)] else [])
           @ [Empty Buf_z (o_z ob), Empty Buf_mu (o_mu ob), Empty Buf_rsigma (o_rsigma ob)]"
  using assms unfolding alloc_outputs_def
  by (auto simp: bind_w_Inr_iff ret_w_iff torch_empty_iff list_all_nonneg_int split: if_splits)

lemma launch_iff:
  "(launch l b lp w = (r, w')) =
     (r = Inr (if b then run_query l lp else lp) \<and> w' = record_events [Launch l b lp] w)"
  by (auto simp: launch_def)

lemma draw_philox_iff:
  "(draw_philox env c lp w = (r, w')) =
     (r = Inr (lp\<lparr>params := (params lp)\<lparr>p_philox_args :=
                 Some (seed (gens w (get_generator_or_default (gen_opt c) (default_generator env))),
                       philox_offset_per_thread
                         (gens w (get_generator_or_default (gen_opt c) (default_generator env))))\<rparr>\<rparr>)
      \<and> w' = record_events
                [PhiloxState (get_generator_or_default (gen_opt c) (default_generator env))
                   (elts_per_thread lp)]
                (w\<lparr>gens := (gens w)
                   (get_generator_or_default (gen_opt c) (default_generator env) :=
                      (gens w (get_generator_or_default (gen_opt c) (default_generator env)))
                        \<lparr>philox_offset_per_thread :=
                           philox_offset_per_thread
                             (gens w (get_generator_or_default (gen_opt c) (default_generator env)))
                           + elts_per_thread lp\<rparr>)\<rparr>))"
  by (auto simp: draw_philox_def philox_cuda_state_def Let_def)

lemma alloc_scratch_iff:
  "(alloc_scratch c lp w = (r, w')) =
     (r = Inr (lp\<lparr>params := (params lp)
                 \<lparr>p_workspace := Some (new_tensor (is_cuda (x0 c)) [int (workspace_bytes lp)] kChar),
                  p_barrier := Some (new_tensor (is_cuda (x0 c)) [int (barrier_size lp)] kInt32)\<rparr>\<rparr>)
      \<and> w' = record_events
                [Zeros Buf_barrier (new_tensor (is_cuda (x0 c)) [int (barrier_size lp)] kInt32),
                 Empty Buf_workspace (new_tensor (is_cuda (x0 c)) [int (workspace_bytes lp)] kChar)] w)"
  by (auto simp: alloc_scratch_def bind_w_def torch_zeros_def torch_empty_def ret_w_def record_events_def)

lemma run_query_simps [simp]:
  "elts_per_thread (run_query l lp) = q_elts_per_thread (l lp)"
  "barrier_size (run_query l lp) = q_barrier_size (l lp)"
  "workspace_bytes (run_query l lp) = q_workspace_bytes (l lp)"
  "params (run_query l lp) = params lp"
  "props (run_query l lp) = props lp"
  "stream (run_query l lp) = stream lp"
  by (simp_all add: run_query_def)

lemma new_events_append:
  "trace w1 = trace w @ evs \<Longrightarrow> new_events w w1 = evs"
  by (simp add: new_events_def)

lemma init_params_unset [simp]:
  "p_philox_args (params (init_launch_params env c sv ob)) = None"
  "p_workspace (params (init_launch_params env c sv ob)) = None"
  "p_barrier (params (init_launch_params env c sv ob)) = None"
  by (simp_all add: init_launch_params_def build_params_def)

lemma run_launch_shape:
  fixes env c sv ob l w
  defines "lp0 \<equiv> init_launch_params env c sv ob"
  defines "g \<equiv> get_generator_or_default (gen_opt c) (default_generator env)"
  defines "barrier \<equiv> new_tensor (is_cuda (x0 c)) [int (q_barrier_size (l lp0))] kInt32"
  defines "workspace \<equiv> new_tensor (is_cuda (x0 c)) [int (q_workspace_bytes (l lp0))] kChar"
  shows "\<exists>lp3 w'.
    run_launch env c sv ob l w =
       (Inr [Some (o_z ob), o_x ob, o_dmask ob, Some (o_mu ob), Some (o_rsigma ob)], w') \<and>
    trace w' = trace w @ [Launch l True lp0]
        @ (if float_less (Finite 0) (dropout_p c) then [PhiloxState g (q_elts_per_thread (l lp0))] else [])
        @ (if 0 < q_barrier_size (l lp0) then [Zeros Buf_barrier barrier, Empty Buf_workspace workspace] else [])
        @ [Launch l False lp3] \<and>
    gens w' = (if float_less (Finite 0) (dropout_p c)
                then (gens w)(g := (gens w g)\<lparr>philox_offset_per_thread :=
                                     philox_offset_per_thread (gens w g) + q_elts_per_thread (l lp0)\<rparr>)
                else gens w) \<and>
    (params lp3)\<lparr>p_philox_args := None, p_workspace := None, p_barrier := None\<rparr> = params lp0 \<and>
    p_philox_args (params lp3) =
       (if float_less (Finite 0) (dropout_p c)
        then Some (seed (gens w g), philox_offset_per_thread (gens w g)) else None) \<and>
    p_workspace (params lp3) = (if 0 < q_barrier_size (l lp0) then Some workspace else None) \<and>
    p_barrier (params lp3) = (if 0 < q_barrier_size (l lp0) then Some barrier else None) \<and>
    elts_per_thread lp3 = q_elts_per_thread (l lp0) \<and>
    barrier_size lp3 = q_barrier_size (l lp0) \<and>
    workspace_bytes lp3 = q_workspace_bytes (l lp0)"
  unfolding lp0_def g_def barrier_def workspace_def
  by (cases "float_less (Finite 0) (dropout_p c)";
      cases "0 < q_barrier_size (l (init_launch_params env c sv ob))")
     (simp_all add: Let_def run_launch_def bind_w_def launch_def draw_philox_def
        philox_cuda_state_def alloc_scratch_def torch_zeros_def torch_empty_def ret_w_def
        record_events_def init_launch_params_def build_params_def run_query_def)

lemma check_182_iff:
  "(check_all [(b, 182)] = r) = (if b then r = Inr () else r = Inl (CheckFailed 182))"
  by (auto simp: check_all_def)

lemma fwd_Inr_D:
  assumes "dropout_add_ln_fwd env c w = (Inr outs, w')"
  shows "\<exists>sv ob w1 l. validate c = Inr sv \<and> alloc_outputs c sv w = (Inr ob, w1) \<and>
           float_less (dropout_p c) (Finite 1) \<and>
           get_fwd_launcher (TypeId env) (FWD_FUNCS env) (wtype c) (itype c) (rtype c) (otype c)
             ctype (padded_hidden_size c) = Inr l \<and>
           run_launch env c sv ob l w1 = (Inr outs, w')"
  using assms unfolding dropout_add_ln_fwd_def
  by (auto simp: bind_w_Inr_iff lift_w_iff check_182_iff split: if_splits)

lemma fwd_Inr_I:
  assumes "validate c = Inr sv" "alloc_outputs c sv w = (Inr ob, w1)"
    "float_less (dropout_p c) (Finite 1)"
    "get_fwd_launcher (TypeId env) (FWD_FUNCS env) (wtype c) (itype c) (rtype c) (otype c)
       ctype (padded_hidden_size c) = Inr l"
  shows "dropout_add_ln_fwd env c w = run_launch env c sv ob l w1"
  using assms unfolding dropout_add_ln_fwd_def
  by (simp add: bind_w_def lift_w_def check_all_def)

lemma fwd_Inl_D:
  assumes "dropout_add_ln_fwd env c w = (Inl e, w')"
  shows "(validate c = Inl e \<and> w' = w)
       \<or> (\<exists>sv. validate c = Inr sv \<and> alloc_outputs c sv w = (Inl e, w'))
       \<or> (\<exists>sv ob. validate c = Inr sv \<and> alloc_outputs c sv w = (Inr ob, w') \<and>
             \<not> float_less (dropout_p c) (Finite 1) \<and> e = CheckFailed 182)
       \<or> (\<exists>sv ob. validate c = Inr sv \<and> alloc_outputs c sv w = (Inr ob, w') \<and>
             float_less (dropout_p c) (Finite 1) \<and>
             get_fwd_launcher (TypeId env) (FWD_FUNCS env) (wtype c) (itype c) (rtype c) (otype c)
               ctype (padded_hidden_size c) = Inl e)"
proof -
  have no_fail: "\<And>sv ob l w1. run_launch env c sv ob l w1 \<noteq> (Inl e, w')"
    using run_launch_shape by (metis Inl_Inr_False prod.inject)
  show ?thesis
    using assms no_fail unfolding dropout_add_ln_fwd_def
    by (auto simp: bind_w_Inl_iff lift_w_iff check_182_iff split: if_splits)
qed

lemma fwd_success:
  assumes "dropout_add_ln_fwd env c w = (Inr outs, w')"
  obtains sv ob l lp3 where
    "validate c = Inr sv"
    "float_less (dropout_p c) (Finite 1)"
    "get_fwd_launcher (TypeId env) (FWD_FUNCS env) (wtype c) (itype c) (rtype c) (otype c)
       ctype (padded_hidden_size c) = Inr l"
    "o_x ob = (if save_x c then Some (new_tensor (is_cuda (x0 c)) (map int sv) (rtype c)) else None)"
    "o_dmask ob = (if float_less (Finite 0) (dropout_p c)
                   then Some (new_tensor (is_cuda (x0 c)) (map int (sizes (x0 c))) mtype) else None)"
    "o_z ob = new_tensor (is_cuda (x0 c))
                (if has_value (z_subset_opt c) then [z_numrows c, cols_of sv] else map int sv) (otype c)"
    "o_mu ob = new_tensor (is_cuda (x0 c)) [rows_of sv] ctype"
    "o_rsigma ob = new_tensor (is_cuda (x0 c)) [rows_of sv] ctype"
    "outs = [Some (o_z ob), o_x ob, o_dmask ob, Some (o_mu ob), Some (o_rsigma ob)]"
    "new_events w w' =
       (if save_x c then [Empty Buf_x (new_tensor (is_cuda (x0 c)) (map int sv) (rtype c))] else [])
       @ (if float_less (Finite 0) (dropout_p c)
          then [Empty Buf_dmask (new_tensor (is_cuda (x0 c)) (map int (sizes (x0 c))) mtype)] else [])
       @ [Empty Buf_z (o_z ob), Empty Buf_mu (o_mu ob), Empty Buf_rsigma (o_rsigma ob)]
       @ [Launch l True (init_launch_params env c sv ob)]
       @ (if float_less (Finite 0) (dropout_p c)
          then [PhiloxState (get_generator_or_default (gen_opt c) (default_generator env))
                  (q_elts_per_thread (l (init_launch_params env c sv ob)))] else [])
       @ (if 0 < q_barrier_size (l (init_launch_params env c sv ob))
          then [Zeros Buf_barrier (new_tensor (is_cuda (x0 c))
                   [int (q_barrier_size (l (init_launch_params env c sv ob)))] kInt32),
                Empty Buf_workspace (new_tensor (is_cuda (x0 c))
                   [int (q_workspace_bytes (l (init_launch_params env c sv ob)))] kChar)] else [])
       @ [Launch l False lp3]"
    "gens w' =
       (if float_less (Finite 0) (dropout_p c)
        then (gens w)(get_generator_or_default (gen_opt c) (default_generator env) :=
               (gens w (get_generator_or_default (gen_opt c) (default_generator env)))
                 \<lparr>philox_offset_per_thread :=
                    philox_offset_per_thread
                      (gens w (get_generator_or_default (gen_opt c) (default_generator env)))
                    + q_elts_per_thread (l (init_launch_params env c sv ob))\<rparr>)
        else gens w)"
    "(params lp3)\<lparr>p_philox_args := None, p_workspace := None, p_barrier := None\<rparr>
       = build_params c sv ob"
    "p_philox_args (params lp3) =
       (if float_less (Finite 0) (dropout_p c)
        then Some (seed (gens w (get_generator_or_default (gen_opt c) (default_generator env))),
                   philox_offset_per_thread
                     (gens w (get_generator_or_default (gen_opt c) (default_generator env))))
        else None)"
    "p_workspace (params lp3) =
       (if 0 < q_barrier_size (l (init_launch_params env c sv ob))
        then Some (new_tensor (is_cuda (x0 c))
                     [int (q_workspace_bytes (l (init_launch_params env c sv ob)))] kChar)
        else None)"
    "p_barrier (params lp3) =
       (if 0 < q_barrier_size (l (init_launch_params env c sv ob))
        then Some (new_tensor (is_cuda (x0 c))
                     [int (q_barrier_size (l (init_launch_params env c sv ob)))] kInt32)
        else None)"
    "elts_per_thread lp3 = q_elts_per_thread (l (init_launch_params env c sv ob))"
    "barrier_size lp3 = q_barrier_size (l (init_launch_params env c sv ob))"
    "workspace_bytes lp3 = q_workspace_bytes (l (init_launch_params env c sv ob))"
proof -
  from fwd_Inr_D[OF assms] obtain sv ob w1 l where
    v: "validate c = Inr sv" and a: "alloc_outputs c sv w = (Inr ob, w1)" and
    d: "float_less (dropout_p c) (Finite 1)" and
    g: "get_fwd_launcher (TypeId env) (FWD_FUNCS env) (wtype c) (itype c) (rtype c) (otype c)
          ctype (padded_hidden_size c) = Inr l" and
    r: "run_launch env c sv ob l w1 = (Inr outs, w')"
    by blast
  note al = alloc_outputs_Inr[OF a]
  from run_launch_shape[of env c sv ob l w1] r obtain lp3 where
    s: "outs = [Some (o_z ob), o_x ob, o_dmask ob, Some (o_mu ob), Some (o_rsigma ob)]"
     "trace w' = trace w1 @ [Launch l True (init_launch_params env c sv ob)]
        @ (if float_less (Finite 0) (dropout_p c)
           then [PhiloxState (get_generator_or_default (gen_opt c) (default_generator env))
                  (q_elts_per_thread (l (init_launch_params env c sv ob)))] else [])
        @ (if 0 < q_barrier_size (l (init_launch_params env c sv ob))
           then [Zeros Buf_barrier (new_tensor (is_cuda (x0 c))
                    [int (q_barrier_size (l (init_launch_params env c sv ob)))] kInt32),
                 Empty Buf_workspace (new_tensor (is_cuda (x0 c))
                    [int (q_workspace_bytes (l (init_launch_params env c sv ob)))] kChar)] else [])
        @ [Launch l False lp3]"
     "gens w' =
       (if float_less (Finite 0) (dropout_p c)
        then (gens w1)(get_generator_or_default (gen_opt c) (default_generator env) :=
               (gens w1 (get_generator_or_default (gen_opt c) (default_generator env)))
                 \<lparr>philox_offset_per_thread :=
                    philox_offset_per_thread
                      (gens w1 (get_generator_or_default (gen_opt c) (default_generator env)))
                    + q_elts_per_thread (l (init_launch_params env c sv ob))\<rparr>)
        else gens w1)"
     "(params lp3)\<lparr>p_philox_args := None, p_workspace := None, p_barrier := None\<rparr>
        = params (init_launch_params env c sv ob)"
     "p_philox_args (params lp3) =
       (if float_less (Finite 0) (dropout_p c)
        then Some (seed (gens w1 (get_generator_or_default (gen_opt c) (default_generator env))),
                   philox_offset_per_thread
                     (gens w1 (get_generator_or_default (gen_opt c) (default_generator env))))
        else None)"
     "p_workspace (params lp3) =
       (if 0 < q_barrier_size (l (init_launch_params env c sv ob))
        then Some (new_tensor (is_cuda (x0 c))
                     [int (q_workspace_bytes (l (init_launch_params env c sv ob)))] kChar)
        else None)"
     "p_barrier (params lp3) =
       (if 0 < q_barrier_size (l (init_launch_params env c sv ob))
        then Some (new_tensor (is_cuda (x0 c))
                     [int (q_barrier_size (l (init_launch_params env c sv ob)))] kInt32)
        else None)"
     "elts_per_thread lp3 = q_elts_per_thread (l (init_launch_params env c sv ob))"
     "barrier_size lp3 = q_barrier_size (l (init_launch_params env c sv ob))"
     "workspace_bytes lp3 = q_workspace_bytes (l (init_launch_params env c sv ob))"
    by auto
  have ne: "new_events w w' = drop (length (trace w)) (trace w')"
    by (simp add: new_events_def)
  show thesis
  proof (rule that[where sv=sv and ob=ob and l=l and ?lp3.0=lp3])
    show "new_events w w' =
       (if save_x c then [Empty Buf_x (new_tensor (is_cuda (x0 c)) (map int sv) (rtype c))] else [])
       @ (if float_less (Finite 0) (dropout_p c)
          then [Empty Buf_dmask (new_tensor (is_cuda (x0 c)) (map int (sizes (x0 c))) mtype)] else [])
       @ [Empty Buf_z (o_z ob), Empty Buf_mu (o_mu ob), Empty Buf_rsigma (o_rsigma ob)]
       @ [Launch l True (init_launch_params env c sv ob)]
       @ (if float_less (Finite 0) (dropout_p c)
          then [PhiloxState (get_generator_or_default (gen_opt c) (default_generator env))
                  (q_elts_per_thread (l (init_launch_params env c sv ob)))] else [])
       @ (if 0 < q_barrier_size (l (init_launch_params env c sv ob))
          then [Zeros Buf_barrier (new_tensor (is_cuda (x0 c))
                   [int (q_barrier_size (l (init_launch_params env c sv ob)))] kInt32),
                Empty Buf_workspace (new_tensor (is_cuda (x0 c))
                   [int (q_workspace_bytes (l (init_launch_params env c sv ob)))] kChar)] else [])
       @ [Launch l False lp3]"
      unfolding ne s(2) al(7) by simp
    show "(params lp3)\<lparr>p_philox_args := None, p_workspace := None, p_barrier := None\<rparr>
       = build_params c sv ob"
      using s(4) by (simp add: init_launch_params_def)
  qed (use v d g al s in \<open>simp_all only: \<close>)
qed

section \<open>Evaluating the example calls\<close>

lemmas validate_defs =
  validate_def and_then_def check_all_def sizes_vec_def size_at_def dim_def hidden_size_def
  numel_def cols_of_def rows_of_def to_int32_def beta_checks_def residual_checks_def
  rowscale_checks_def colscale_checks_def subset_checks_def numeric_checks_def has_value_def
  wtype_def itype_def rtype_def otype_def ctype_def mtype_def

lemmas lookup_defs =
  get_fwd_launcher_def get_key_def get_type_id_def and_then_def wtype_def itype_def rtype_def
  otype_def ctype_def padded_hidden_size_def round_multiple_def multiple_def hidden_size_def
  numel_def to_int32_def signed_divide_int_def

lemmas run_defs =
  dropout_add_ln_fwd_def bind_w_def lift_w_def ret_w_def alloc_outputs_def save_x_def
  torch_empty_def torch_zeros_def new_tensor_def run_launch_def launch_def draw_philox_def
  philox_cuda_state_def alloc_scratch_def get_generator_or_default_def record_events_def
  run_query_def init_launch_params_def build_params_def

lemmas ex_defs = ex_env_def ex_TypeId_def ex_tensor_def ex_world_def ex_call_def
  ex_launcher_def ex_launcher_wide_def

lemma ex_call_dropout_validate: "validate ex_call_dropout = Inr [4, 256]"
  by (simp add: ex_call_dropout_def validate_defs ex_defs)

lemma ex_call_dropout_launcher:
  "get_fwd_launcher (TypeId ex_env) (FWD_FUNCS ex_env) (wtype ex_call_dropout)
     (itype ex_call_dropout) (rtype ex_call_dropout) (otype ex_call_dropout) ctype
     (padded_hidden_size ex_call_dropout) = Inr ex_launcher"
  by (simp add: ex_call_dropout_def lookup_defs ex_env_def ex_TypeId_def ex_tensor_def ex_call_def)


section \<open>C1: when the saved intermediate is materialised\<close>



section \<open>C2: the key builder is injective\<close>

text \<open>Bit fields of a word assembled from a low part and a shifted high part.\<close>

lemma take_bit_small: "(w :: 'a::len word) < 2 ^ k \<Longrightarrow> take_bit k w = w"
  by (simp add: take_bit_eq_mask less_mask_eq)

lemma join_take:
  fixes a b :: "'a::len word"
  assumes "a < 2 ^ k"
  shows "take_bit k (push_bit k b OR a) = a"
proof -
  have "take_bit k (push_bit k b OR take_bit k a) = take_bit k a"
    by (rule bit_word_eqI) (auto simp: bit_simps)
  then show ?thesis using take_bit_small[OF assms] by simp
qed

lemma join_drop:
  fixes a b :: "'a::len word"
  assumes "a < 2 ^ k"
  shows "drop_bit k (push_bit k b OR a) = take_bit (LENGTH('a) - k) b"
proof -
  have "drop_bit k (push_bit k b OR take_bit k a) = take_bit (LENGTH('a) - k) b"
    by (rule bit_word_eqI) (auto simp: bit_simps)
  then show ?thesis using take_bit_small[OF assms] by simp
qed

lemma ucast_32_64_inj: "(ucast (a :: 32 word) :: 64 word) = ucast b \<Longrightarrow> a = b"
proof -
  assume h: "(ucast a :: 64 word) = ucast b"
  have "\<And>x :: 32 word. (ucast (ucast x :: 64 word) :: 32 word) = x"
    by (rule bit_word_eqI) (simp add: bit_simps)
  then show "a = b" using h by metis
qed

lemma take_bit_32_ucast: "take_bit 32 (ucast (x :: 32 word) :: 64 word) = ucast x"
  by (rule bit_word_eqI) (auto simp: bit_simps dest: bit_imp_le_length)

lemma field_of_ucast:
  "take_bit 2 (drop_bit n (ucast (x :: 32 word) :: 64 word)) = ucast (take_bit 2 (drop_bit n x))"
  by (rule bit_word_eqI) (auto simp: bit_simps dest: bit_imp_le_length)

lemma type_key_fields_tb:
  fixes w i r o' c :: "32 word"
  defines "t \<equiv> take_bit 2 w OR push_bit 2 (take_bit 2 i) OR push_bit 4 (take_bit 2 r)
                 OR push_bit 6 (take_bit 2 o') OR push_bit 8 (take_bit 2 c)"
  shows "take_bit 2 (drop_bit 0 t) = take_bit 2 w"
    and "take_bit 2 (drop_bit 2 t) = take_bit 2 i"
    and "take_bit 2 (drop_bit 4 t) = take_bit 2 r"
    and "take_bit 2 (drop_bit 6 t) = take_bit 2 o'"
    and "take_bit 2 (drop_bit 8 t) = take_bit 2 c"
    and "drop_bit 10 t = 0"
  unfolding t_def
  by (rule bit_word_eqI; auto simp: bit_simps)+

lemma type_key_fields:
  fixes w i r o' c :: "32 word"
  assumes "w < 4" "i < 4" "r < 4" "o' < 4" "c < 4"
  defines "t \<equiv> w OR push_bit 2 i OR push_bit 4 r OR push_bit 6 o' OR push_bit 8 c"
  shows "take_bit 2 (drop_bit 0 t) = w"
    and "take_bit 2 (drop_bit 2 t) = i"
    and "take_bit 2 (drop_bit 4 t) = r"
    and "take_bit 2 (drop_bit 6 t) = o'"
    and "take_bit 2 (drop_bit 8 t) = c"
    and "drop_bit 10 t = 0"
proof -
  have e: "take_bit 2 w = w" "take_bit 2 i = i" "take_bit 2 r = r" "take_bit 2 o' = o'"
    "take_bit 2 c = c"
    using assms by (simp_all add: take_bit_small)
  show "take_bit 2 (drop_bit 0 t) = w"
    and "take_bit 2 (drop_bit 2 t) = i"
    and "take_bit 2 (drop_bit 4 t) = r"
    and "take_bit 2 (drop_bit 6 t) = o'"
    and "take_bit 2 (drop_bit 8 t) = c"
    and "drop_bit 10 t = 0"
    using type_key_fields_tb[of w i r o' c] unfolding t_def e by simp_all
qed

lemma key_fields:
  fixes t :: "32 word" and h k :: "64 word"
  assumes h: "h < 2 ^ 32" and k: "k = push_bit 32 (ucast t) OR h"
  shows "take_bit 32 k = h"
    and "take_bit 2 (drop_bit (32 + n) k) = ucast (take_bit 2 (drop_bit n t))"
    and "drop_bit (32 + n) k = ucast (drop_bit n t)"
proof -
  show "take_bit 32 k = h"
    unfolding k using join_take[OF h] by simp
  have d: "drop_bit 32 k = ucast t"
    unfolding k using join_drop[OF h, of "ucast t"] by (simp add: take_bit_32_ucast)
  have "drop_bit (32 + n) k = drop_bit n (drop_bit 32 k)"
    by (simp add: drop_bit_drop_bit add.commute)
  then have dn: "drop_bit (32 + n) k = drop_bit n (ucast t)"
    using d by simp
  show "take_bit 2 (drop_bit (32 + n) k) = ucast (take_bit 2 (drop_bit n t))"
    unfolding dn by (rule field_of_ucast)
  show "drop_bit (32 + n) k = ucast (drop_bit n t)"
    unfolding dn by (rule bit_word_eqI) (auto simp: bit_simps dest: bit_imp_le_length)
qed

lemma get_type_id_supported:
  "dt \<in> {kFloat16, kBFloat16, kFloat32} \<Longrightarrow>
     get_type_id T dt = Inr (T (case dt of kFloat16 \<Rightarrow> fp16 | kBFloat16 \<Rightarrow> bf16 | _ \<Rightarrow> fp32))"
  by (auto simp: get_type_id_def)

lemma get_type_id_inj:
  assumes "inj T" "dt \<in> {kFloat16, kBFloat16, kFloat32}" "dt' \<in> {kFloat16, kBFloat16, kFloat32}"
    "get_type_id T dt = Inr a" "get_type_id T dt' = Inr a"
  shows "dt = dt'"
  using assms by (auto simp: get_type_id_def dest: injD split: if_splits)

lemma get_type_id_small:
  "\<forall>t. T t < 4 \<Longrightarrow> get_type_id T dt = Inr a \<Longrightarrow> a < 4"
  by (auto simp: get_type_id_def split: if_splits)

lemma get_key_Inr:
  assumes "get_type_id T w = Inr a" "get_type_id T i = Inr b" "get_type_id T r = Inr c"
    "get_type_id T o' = Inr d" "get_type_id T ct = Inr e"
  shows "get_key T w i r o' ct h =
           Inr (push_bit 32 (ucast (a OR push_bit 2 b OR push_bit 4 c OR push_bit 6 d
                                      OR push_bit 8 e)) OR h)"
  using assms by (simp add: get_key_def and_then_def)

text \<open>
  Claim C2. The key builder is a function of its six arguments, and it is injective on
  its documented domain: for two tuples of five supported precisions (weight, input,
  residual, output, compute) and hidden sizes below \<open>2 ^ 32\<close>, the two keys exist and are
  equal if and only if the tuples and the hidden sizes are equal. In the key the hidden
  size occupies bits 0--31 and the five type codes occupy the 2-bit fields at bits 32, 34,
  36, 38 and 40, with nothing above. The table \<open>TypeId\<close> of \<open>ln.h\<close> is a parameter,
  taken to give the three element types distinct codes below 4.
\<close>

theorem get_key_injective:
  fixes TypeId :: "ln_type \<Rightarrow> 32 word" and h h' :: "64 word"
  assumes codes: "inj TypeId" "\<forall>t. TypeId t < 4"
    and hs: "h < 2 ^ 32" "h' < 2 ^ 32"
    and sup: "\<forall>dt \<in> set [w, i, r, o1, c, w', i', r', o2, c']. dt \<in> {kFloat16, kBFloat16, kFloat32}"
  shows "\<exists>k k' a b d e f.
           get_key TypeId w i r o1 c h = Inr k \<and> get_key TypeId w' i' r' o2 c' h' = Inr k' \<and>
           ((k = k') = (w = w' \<and> i = i' \<and> r = r' \<and> o1 = o2 \<and> c = c' \<and> h = h')) \<and>
           get_type_id TypeId w = Inr a \<and> get_type_id TypeId i = Inr b \<and>
           get_type_id TypeId r = Inr d \<and> get_type_id TypeId o1 = Inr e \<and>
           get_type_id TypeId c = Inr f \<and>
           take_bit 32 k = h \<and>
           take_bit 2 (drop_bit 32 k) = ucast a \<and>
           take_bit 2 (drop_bit 34 k) = ucast b \<and>
           take_bit 2 (drop_bit 36 k) = ucast d \<and>
           take_bit 2 (drop_bit 38 k) = ucast e \<and>
           take_bit 2 (drop_bit 40 k) = ucast f \<and>
           drop_bit 42 k = 0"
proof -
  from sup have s: "w \<in> {kFloat16, kBFloat16, kFloat32}" "i \<in> {kFloat16, kBFloat16, kFloat32}"
    "r \<in> {kFloat16, kBFloat16, kFloat32}" "o1 \<in> {kFloat16, kBFloat16, kFloat32}"
    "c \<in> {kFloat16, kBFloat16, kFloat32}" "w' \<in> {kFloat16, kBFloat16, kFloat32}"
    "i' \<in> {kFloat16, kBFloat16, kFloat32}" "r' \<in> {kFloat16, kBFloat16, kFloat32}"
    "o2 \<in> {kFloat16, kBFloat16, kFloat32}" "c' \<in> {kFloat16, kBFloat16, kFloat32}"
    by simp_all
  obtain a where ia: "get_type_id TypeId w = Inr a" using get_type_id_supported[OF s(1)] by blast
  obtain b where ib: "get_type_id TypeId i = Inr b" using get_type_id_supported[OF s(2)] by blast
  obtain d where id: "get_type_id TypeId r = Inr d" using get_type_id_supported[OF s(3)] by blast
  obtain e where ie: "get_type_id TypeId o1 = Inr e" using get_type_id_supported[OF s(4)] by blast
  obtain f where "if": "get_type_id TypeId c = Inr f" using get_type_id_supported[OF s(5)] by blast
  obtain a' where ia': "get_type_id TypeId w' = Inr a'" using get_type_id_supported[OF s(6)] by blast
  obtain b' where ib': "get_type_id TypeId i' = Inr b'" using get_type_id_supported[OF s(7)] by blast
  obtain d' where id': "get_type_id TypeId r' = Inr d'" using get_type_id_supported[OF s(8)] by blast
  obtain e' where ie': "get_type_id TypeId o2 = Inr e'" using get_type_id_supported[OF s(9)] by blast
  obtain f' where if': "get_type_id TypeId c' = Inr f'" using get_type_id_supported[OF s(10)] by blast
  note ids = ia ib id ie "if"
  note ids' = ia' ib' id' ie' if'
  note small = ids[THEN get_type_id_small[OF codes(2)]] ids'[THEN get_type_id_small[OF codes(2)]]
  define t where "t = a OR push_bit 2 b OR push_bit 4 d OR push_bit 6 e OR push_bit 8 f"
  define t' where "t' = a' OR push_bit 2 b' OR push_bit 4 d' OR push_bit 6 e' OR push_bit 8 f'"
  define k where "k = push_bit 32 (ucast t) OR h"
  define k' where "k' = push_bit 32 (ucast t') OR h'"
  have gk: "get_key TypeId w i r o1 c h = Inr k"
    unfolding k_def t_def by (rule get_key_Inr[OF ids])
  have gk': "get_key TypeId w' i' r' o2 c' h' = Inr k'"
    unfolding k'_def t'_def by (rule get_key_Inr[OF ids'])
  note tf = type_key_fields[OF small(1-5), folded t_def]
  note tf' = type_key_fields[OF small(6-10), folded t'_def]
  note kf = key_fields[OF hs(1) k_def]
  note kf' = key_fields[OF hs(2) k'_def]
  have fa: "take_bit 2 (drop_bit 32 k) = ucast a" using kf(2)[of 0] tf(1) by simp
  have fb: "take_bit 2 (drop_bit 34 k) = ucast b" using kf(2)[of 2] tf(2) by simp
  have fd: "take_bit 2 (drop_bit 36 k) = ucast d" using kf(2)[of 4] tf(3) by simp
  have fe: "take_bit 2 (drop_bit 38 k) = ucast e" using kf(2)[of 6] tf(4) by simp
  have ff: "take_bit 2 (drop_bit 40 k) = ucast f" using kf(2)[of 8] tf(5) by simp
  have fz: "drop_bit 42 k = 0" using kf(3)[of 10] tf(6) by simp
  have fa': "take_bit 2 (drop_bit 32 k') = ucast a'" using kf'(2)[of 0] tf'(1) by simp
  have fb': "take_bit 2 (drop_bit 34 k') = ucast b'" using kf'(2)[of 2] tf'(2) by simp
  have fd': "take_bit 2 (drop_bit 36 k') = ucast d'" using kf'(2)[of 4] tf'(3) by simp
  have fe': "take_bit 2 (drop_bit 38 k') = ucast e'" using kf'(2)[of 6] tf'(4) by simp
  have ff': "take_bit 2 (drop_bit 40 k') = ucast f'" using kf'(2)[of 8] tf'(5) by simp
  have inj: "(k = k') = (w = w' \<and> i = i' \<and> r = r' \<and> o1 = o2 \<and> c = c' \<and> h = h')"
  proof
    assume eq: "k = k'"
    have "h = h'" using kf(1) kf'(1) eq by simp
    moreover have "a = a'" using fa fa' eq by (simp add: ucast_32_64_inj)
    then have "w = w'" using get_type_id_inj[OF codes(1) s(1) s(6)] ids(1) ids'(1) by simp
    moreover have "b = b'" using fb fb' eq by (simp add: ucast_32_64_inj)
    then have "i = i'" using get_type_id_inj[OF codes(1) s(2) s(7)] ids(2) ids'(2) by simp
    moreover have "d = d'" using fd fd' eq by (simp add: ucast_32_64_inj)
    then have "r = r'" using get_type_id_inj[OF codes(1) s(3) s(8)] ids(3) ids'(3) by simp
    moreover have "e = e'" using fe fe' eq by (simp add: ucast_32_64_inj)
    then have "o1 = o2" using get_type_id_inj[OF codes(1) s(4) s(9)] ids(4) ids'(4) by simp
    moreover have "f = f'" using ff ff' eq by (simp add: ucast_32_64_inj)
    then have "c = c'" using get_type_id_inj[OF codes(1) s(5) s(10)] ids(5) ids'(5) by simp
    ultimately show "w = w' \<and> i = i' \<and> r = r' \<and> o1 = o2 \<and> c = c' \<and> h = h'" by simp
  next
    assume "w = w' \<and> i = i' \<and> r = r' \<and> o1 = o2 \<and> c = c' \<and> h = h'"
    then show "k = k'" using gk gk' by simp
  qed
  show ?thesis
    apply (rule exI[where x=k], rule exI[where x=k'], rule exI[where x=a], rule exI[where x=b],
           rule exI[where x=d], rule exI[where x=e], rule exI[where x=f])
    apply (intro conjI)
    apply (fact gk gk' inj ids kf(1) fa fb fd fe ff fz)+
    done
qed

text \<open>
  The theorem at the codes 0, 1 and 2 and hidden size 256, for two tuples that differ in
  the input and output precision: the keys differ in the fields at bits 34 and 38.
\<close>

theorem get_key_injective_witness:
  "inj ex_TypeId \<and> (\<forall>t. ex_TypeId t < 4) \<and>
   get_key ex_TypeId kFloat32 kFloat16 kFloat32 kFloat16 kFloat32 256 = Inr 2345052143872 \<and>
   get_key ex_TypeId kFloat32 kBFloat16 kFloat32 kBFloat16 kFloat32 256 = Inr 2637109920000 \<and>
   take_bit 2 (drop_bit 34 (2345052143872 :: 64 word)) = 0 \<and>
   take_bit 2 (drop_bit 34 (2637109920000 :: 64 word)) = 1"
proof -
  have i: "inj ex_TypeId"
  proof (rule injI)
    fix x y show "ex_TypeId x = ex_TypeId y \<Longrightarrow> x = y"
      by (cases x; cases y) (simp_all add: ex_TypeId_def)
  qed
  have c: "\<forall>t. ex_TypeId t < 4"
  proof
    fix t show "ex_TypeId t < 4" by (cases t) (simp_all add: ex_TypeId_def)
  qed
  have s: "\<forall>dt \<in> set [kFloat32, kFloat16, kFloat32, kFloat16, kFloat32,
                          kFloat32, kBFloat16, kFloat32, kBFloat16, kFloat32].
             dt \<in> {kFloat16, kBFloat16, kFloat32}"
    by simp
  have h: "(256 :: 64 word) < 2 ^ 32" by simp
  have k1: "get_key ex_TypeId kFloat32 kFloat16 kFloat32 kFloat16 kFloat32 256 = Inr 2345052143872"
    by (simp add: get_key_def get_type_id_def and_then_def ex_TypeId_def)
  have k2: "get_key ex_TypeId kFloat32 kBFloat16 kFloat32 kBFloat16 kFloat32 256 = Inr 2637109920000"
    by (simp add: get_key_def get_type_id_def and_then_def ex_TypeId_def)
  from get_key_injective[OF i c h h s] k1 k2 i c show ?thesis
    by (simp add: get_type_id_def ex_TypeId_def)
qed

section \<open>Facts about validation, rounding and the lookup\<close>

lemma first_failed_None_iff: "(first_failed cs = None) = list_all fst cs"
  by (induction cs rule: first_failed.induct) auto

lemma check_all_Inr_iff: "(check_all cs = Inr u) = list_all fst cs"
  by (simp add: check_all_def first_failed_None_iff[symmetric] split: option.splits)

lemma check_all_Inl_iff: "(check_all cs = Inl e) = (\<exists>line. first_failed cs = Some line \<and> e = CheckFailed line)"
  by (auto simp: check_all_def split: option.splits)

lemma and_then_Inr_iff: "(and_then m f = Inr v) = (\<exists>u. m = Inr u \<and> f u = Inr v)"
  by (cases m) (auto simp: and_then_def)

lemma and_then_Inl_iff: "(and_then m f = Inl e) = (m = Inl e \<or> (\<exists>u. m = Inr u \<and> f u = Inl e))"
  by (cases m) (auto simp: and_then_def)

lemma validate_Inr_D:
  assumes "validate c = Inr sv"
  shows "is_cuda (x0 c)" "is_cuda (gamma c)" "is_contiguous (x0 c)" "sizes_vec c = Inr sv"
    "dim (x0 c) = 2" "hidden_size c = cols_of sv"
    "list_all fst (beta_checks c)" "list_all fst (residual_checks c sv)"
    "list_all fst (rowscale_checks c sv)" "list_all fst (colscale_checks c sv)"
    "list_all fst (subset_checks c sv)"
    "hidden_size c mod 8 = 0" "hidden_size c \<le> 8192" "float_le (Finite 0) (epsilon c)"
  using assms unfolding validate_def
  by (auto simp: and_then_Inr_iff check_all_Inr_iff numeric_checks_def)







lemma get_fwd_launcher_Inr_iff:
  "(get_fwd_launcher T F w i r o' c h = Inr l) =
     (\<exists>key. get_key T w i r o' c (ucast h) = Inr key \<and> F key = Some l)"
  by (auto simp: get_fwd_launcher_def and_then_Inr_iff split: option.splits)




lemma alloc_outputs_events:
  assumes "alloc_outputs c sv w = (r, w1)"
  shows "gens w1 = gens w"
    and "\<exists>evs. trace w1 = trace w @ evs \<and> list_all is_output_alloc evs"
    and "\<forall>e. r = Inl e \<longrightarrow> e = NegativeDimension"
  using assms unfolding alloc_outputs_def
  by (auto simp: bind_w_def ret_w_def torch_empty_def split: if_splits)

lemma output_alloc_no_launch: "list_all is_output_alloc evs \<Longrightarrow> Launch l b lp \<notin> set evs"
  by (auto simp: list_all_iff)

lemma new_events_output_allocs:
  assumes "alloc_outputs c sv w = (r, w1)"
  shows "list_all is_output_alloc (new_events w w1)"
  using alloc_outputs_events(2)[OF assms] by (auto simp: new_events_def)

lemma sizes_vec_Inl: "sizes_vec c = Inl e \<Longrightarrow> e = IndexOutOfRange"
  by (auto simp: sizes_vec_def and_then_Inl_iff size_at_def split: option.splits if_splits)

lemma validate_Inl:
  assumes "validate c = Inl e"
  shows "(\<exists>line. e = CheckFailed line) \<or> e = IndexOutOfRange"
  using assms sizes_vec_Inl unfolding validate_def
  by (auto simp: and_then_Inl_iff check_all_Inl_iff)

lemma validate_Inl_precondition: "validate c = Inl e \<Longrightarrow> precondition_violation e"
  using validate_Inl by fastforce

lemma fwd_total: "\<exists>r w'. dropout_add_ln_fwd env c w = (r, w')"
  by (cases "dropout_add_ln_fwd env c w") blast

text \<open>
  When the row-gather index is present, lines 144--157 check it, demand the row-scatter
  index and check that too.
\<close>

lemma gather_index_present_checks_both:
  assumes "validate c = Inr sv" "x0_subset_opt c = Some xs"
  shows "\<exists>zs. z_subset_opt c = Some zs \<and>
           is_cuda xs \<and> is_contiguous xs \<and> map int (sizes xs) = [rows_of sv] \<and>
           scalar_type xs = kInt32 \<and>
           is_cuda zs \<and> is_contiguous zs \<and> map int (sizes zs) = [rows_of sv] \<and>
           scalar_type zs = kInt32"
  using validate_Inr_D(11)[OF assms(1)] assms(2)
  by (cases "z_subset_opt c") (simp_all add: subset_checks_def has_value_def)

lemma launches_append: "launches p (xs @ ys) = launches p xs @ launches p ys"
  by (induction p xs rule: launches.induct) simp_all

lemma launches_output_allocs: "list_all is_output_alloc evs \<Longrightarrow> launches p evs = []"
proof (induction evs)
  case Nil
  then show ?case by simp
next
  case (Cons ev evs)
  then show ?case by (cases ev) simp_all
qed

section \<open>C3: the lookup uses the rounded hidden size\<close>




section \<open>C4: launcher resolution is an exact-match lookup\<close>

text \<open>
  Claim C4. Launcher resolution is an exact-match lookup by dispatch key. Whenever the key
  of the arguments exists, \<open>get_fwd_launcher\<close> returns the launcher registered under it,
  and throws the unsupported-configuration error, which carries the hidden size and the
  five precisions, when nothing is registered under it; every launcher it returns is the
  one registered under the key. There is no fallback: a call of the dispatch whose key is
  not registered fails without calling any launcher, and with that error once the checks
  and allocations before the lookup have passed.
\<close>

theorem launcher_resolution_exact_match:
  "(\<forall>key. get_key T wt it rt ot ct (ucast h) = Inr key \<longrightarrow>
      get_fwd_launcher T F wt it rt ot ct h =
        (case F key of Some l \<Rightarrow> Inr l | None \<Rightarrow> Inl (UnsupportedConfig h wt it rt ot ct))) \<and>
   (\<forall>l. get_fwd_launcher T F wt it rt ot ct h = Inr l \<longrightarrow>
      (\<exists>key. get_key T wt it rt ot ct (ucast h) = Inr key \<and> F key = Some l)) \<and>
   (\<forall>key. get_key (TypeId env) (wtype c) (itype c) (rtype c) (otype c) ctype
             (ucast (padded_hidden_size c)) = Inr key \<and> FWD_FUNCS env key = None \<longrightarrow>
      (\<exists>e w'. dropout_add_ln_fwd env c w = (Inl e, w') \<and>
              (\<forall>l b lp. Launch l b lp \<notin> set (new_events w w')) \<and>
              (precondition_violation e \<or>
               e = UnsupportedConfig (padded_hidden_size c) (wtype c) (itype c) (rtype c)
                     (otype c) ctype))) \<and>
   (\<forall>key sv ob w1.
      get_key (TypeId env) (wtype c) (itype c) (rtype c) (otype c) ctype
        (ucast (padded_hidden_size c)) = Inr key \<and> FWD_FUNCS env key = None \<and>
      validate c = Inr sv \<and> alloc_outputs c sv w = (Inr ob, w1) \<and>
      float_less (dropout_p c) (Finite 1) \<longrightarrow>
      dropout_add_ln_fwd env c w =
        (Inl (UnsupportedConfig (padded_hidden_size c) (wtype c) (itype c) (rtype c) (otype c)
                ctype), w1))"
proof -
  have a: "get_fwd_launcher T F wt it rt ot ct h =
        (case F key of Some l \<Rightarrow> Inr l | None \<Rightarrow> Inl (UnsupportedConfig h wt it rt ot ct))"
    if "get_key T wt it rt ot ct (ucast h) = Inr key" for key
    using that by (simp add: get_fwd_launcher_def and_then_def)
  have b: "\<exists>key. get_key T wt it rt ot ct (ucast h) = Inr key \<and> F key = Some l"
    if "get_fwd_launcher T F wt it rt ot ct h = Inr l" for l
    using that by (simp add: get_fwd_launcher_Inr_iff)
  have c: "\<exists>e w'. dropout_add_ln_fwd env c w = (Inl e, w') \<and>
              (\<forall>l b lp. Launch l b lp \<notin> set (new_events w w')) \<and>
              (precondition_violation e \<or>
               e = UnsupportedConfig (padded_hidden_size c) (wtype c) (itype c) (rtype c)
                     (otype c) ctype)"
    if k: "get_key (TypeId env) (wtype c) (itype c) (rtype c) (otype c) ctype
             (ucast (padded_hidden_size c)) = Inr key" and n: "FWD_FUNCS env key = None" for key
  proof -
    have g: "get_fwd_launcher (TypeId env) (FWD_FUNCS env) (wtype c) (itype c) (rtype c) (otype c)
               ctype (padded_hidden_size c) =
             Inl (UnsupportedConfig (padded_hidden_size c) (wtype c) (itype c) (rtype c) (otype c)
                    ctype)"
      using k n by (simp add: get_fwd_launcher_def and_then_def)
    obtain r w' where r: "dropout_add_ln_fwd env c w = (r, w')"
      using fwd_total by blast
    show ?thesis
    proof (cases r)
      case (Inr outs)
      with r fwd_Inr_D[of env c w outs w'] g show ?thesis by auto
    next
      case (Inl e)
      with r have f: "dropout_add_ln_fwd env c w = (Inl e, w')" by simp
      from fwd_Inl_D[OF f]
      consider "validate c = Inl e" "w' = w"
        | sv where "alloc_outputs c sv w = (Inl e, w')"
        | sv ob where "alloc_outputs c sv w = (Inr ob, w')" "e = CheckFailed 182"
        | sv ob where "alloc_outputs c sv w = (Inr ob, w')"
            "get_fwd_launcher (TypeId env) (FWD_FUNCS env) (wtype c) (itype c) (rtype c)
               (otype c) ctype (padded_hidden_size c) = Inl e"
        by blast
      then show ?thesis
      proof cases
        case 1
        then show ?thesis using f validate_Inl_precondition by auto
      next
        case 2
        from alloc_outputs_events(3)[OF 2] new_events_output_allocs[OF 2] f
        show ?thesis using output_alloc_no_launch by fastforce
      next
        case 3
        from new_events_output_allocs[OF 3(1)] 3(2) f
        show ?thesis using output_alloc_no_launch by fastforce
      next
        case 4
        from new_events_output_allocs[OF 4(1)] 4(2) g f
        show ?thesis using output_alloc_no_launch by fastforce
      qed
    qed
  qed
  have d: "dropout_add_ln_fwd env c w =
        (Inl (UnsupportedConfig (padded_hidden_size c) (wtype c) (itype c) (rtype c) (otype c)
                ctype), w1)"
    if "get_key (TypeId env) (wtype c) (itype c) (rtype c) (otype c) ctype
        (ucast (padded_hidden_size c)) = Inr key" "FWD_FUNCS env key = None"
      "validate c = Inr sv" "alloc_outputs c sv w = (Inr ob, w1)"
      "float_less (dropout_p c) (Finite 1)" for key sv ob w1
    using that unfolding dropout_add_ln_fwd_def
    by (simp add: bind_w_def lift_w_def check_all_def get_fwd_launcher_def and_then_def)
  show ?thesis
    using a b c d by blast
qed

text \<open>The theorem at hidden size 512, for which nothing is registered.\<close>

lemma ex_call_512_validate: "validate ex_call_512 = Inr [4, 512]"
  by (simp add: ex_call_512_def validate_defs ex_defs)

lemma ex_call_512_key:
  "get_key (TypeId ex_env) (wtype ex_call_512) (itype ex_call_512) (rtype ex_call_512)
     (otype ex_call_512) ctype (ucast (padded_hidden_size ex_call_512)) = Inr 2929167696384"
  by (simp add: ex_call_512_def lookup_defs ex_env_def ex_TypeId_def ex_tensor_def ex_call_def)

lemma ex_call_512_alloc:
  "alloc_outputs ex_call_512 [4, 512] ex_world =
     (Inr \<lparr>o_z = ex_tensor kFloat32 [4, 512], o_x = None, o_dmask = None,
           o_mu = ex_tensor kFloat32 [4], o_rsigma = ex_tensor kFloat32 [4]\<rparr>,
      record_events [Empty Buf_z (ex_tensor kFloat32 [4, 512]), Empty Buf_mu (ex_tensor kFloat32 [4]),
                     Empty Buf_rsigma (ex_tensor kFloat32 [4])] ex_world)"
  by (simp add: run_defs validate_defs ex_call_512_def ex_call_def ex_tensor_def)

theorem launcher_resolution_exact_match_witness:
  "FWD_FUNCS ex_env 2929167696384 = None \<and>
   fst (dropout_add_ln_fwd ex_env ex_call_512 ex_world) =
     Inl (UnsupportedConfig 512 kFloat32 kFloat32 kFloat32 kFloat32 kFloat32)"
proof -
  have n: "FWD_FUNCS ex_env 2929167696384 = None"
    by (simp add: ex_env_def)
  have p: "float_less (dropout_p ex_call_512) (Finite 1)"
    by (simp add: ex_call_512_def ex_call_def)
  have t: "padded_hidden_size ex_call_512 = 512" "wtype ex_call_512 = kFloat32"
    "itype ex_call_512 = kFloat32" "rtype ex_call_512 = kFloat32" "otype ex_call_512 = kFloat32"
    "ctype = kFloat32"
    by (simp_all add: ex_call_512_def lookup_defs ex_tensor_def ex_call_def)
  from launcher_resolution_exact_match[of ex_TypeId kFloat32 kFloat32 kFloat32 kFloat32 kFloat32
      512 "FWD_FUNCS ex_env" ex_env ex_call_512 ex_world]
    ex_call_512_key n ex_call_512_validate ex_call_512_alloc p
  have "dropout_add_ln_fwd ex_env ex_call_512 ex_world =
        (Inl (UnsupportedConfig (padded_hidden_size ex_call_512) (wtype ex_call_512)
               (itype ex_call_512) (rtype ex_call_512) (otype ex_call_512) ctype),
         record_events [Empty Buf_z (ex_tensor kFloat32 [4, 512]), Empty Buf_mu (ex_tensor kFloat32 [4]),
                     Empty Buf_rsigma (ex_tensor kFloat32 [4])] ex_world)"
    by blast
  then show ?thesis using n t by simp
qed

section \<open>C5: the numeric-range checks\<close>




section \<open>C6: the gather and scatter index buffers\<close>

lemma ex_call_z_only_validate: "validate ex_call_z_only = Inr [4, 256]"
  by (simp add: ex_call_z_only_def validate_defs ex_defs)

lemma ex_call_z_only_launcher:
  "get_fwd_launcher (TypeId ex_env) (FWD_FUNCS ex_env) (wtype ex_call_z_only)
     (itype ex_call_z_only) (rtype ex_call_z_only) (otype ex_call_z_only) ctype
     (padded_hidden_size ex_call_z_only) = Inr ex_launcher"
  by (simp add: ex_call_z_only_def lookup_defs ex_env_def ex_TypeId_def ex_tensor_def ex_call_def)

text \<open>
  Claim C6 says that a call supplying only one of the two index buffers fails with a
  precondition violation. The checks of the row-scatter index sit inside the block for
  the row-gather index, so a call with a row-scatter index alone is not checked at all:
  the call below passes a non-contiguous host tensor of seven floats as \<open>z_subset\<close>,
  returns, has sized the output by \<open>z_numrows\<close> and has handed the tensor to the launcher.
\<close>

theorem scatter_index_alone_is_not_checked:
  "x0_subset_opt ex_call_z_only = None \<and>
   z_subset_opt ex_call_z_only =
     Some \<lparr>scalar_type = kFloat32, sizes = [7], is_cuda = False, is_contiguous = False\<rparr> \<and>
   fst (dropout_add_ln_fwd ex_env ex_call_z_only ex_world) =
     Inr [Some (ex_tensor kFloat32 [2, 256]), None, None, Some (ex_tensor kFloat32 [4]),
          Some (ex_tensor kFloat32 [4])] \<and>
   map (\<lambda>(l, lp). p_z_subset (params lp))
     (launches False (trace (snd (dropout_add_ln_fwd ex_env ex_call_z_only ex_world)))) =
     [Some \<lparr>scalar_type = kFloat32, sizes = [7], is_cuda = False, is_contiguous = False\<rparr>]"
  unfolding dropout_add_ln_fwd_def
  apply (simp add: ex_call_z_only_validate ex_call_z_only_launcher bind_w_def lift_w_def check_all_def)
  apply (simp add: run_defs validate_defs Let_def ex_call_z_only_def ex_call_def ex_tensor_def
      ex_world_def ex_launcher_def)
  done

section \<open>C7: Query, then Execute\<close>

text \<open>
  Claim C7. A valid call (one that passes validation, the output allocations and the check
  of the dropout probability, and whose launcher is found) returns, and what it does after
  the output allocations is, in order: one call of the resolved launcher in the Query
  phase; the advance of the generator when dropout is active; the allocation of the
  barrier, zeroed, and of the workspace, when the Query phase has reported a positive
  barrier size, and nothing otherwise; one call of the same launcher in the Execute phase,
  which is the last event of the call. The Query phase is handed null scratch references;
  the Execute phase is handed the two buffers when they were allocated and null
  references otherwise. The source tests the reported barrier size alone (line 233): that
  is the positive requirement, and the workspace follows it.
\<close>

theorem query_then_execute:
  assumes "validate c = Inr sv" and "alloc_outputs c sv w = (Inr ob, w1)"
    and "float_less (dropout_p c) (Finite 1)"
    and "get_fwd_launcher (TypeId env) (FWD_FUNCS env) (wtype c) (itype c) (rtype c) (otype c)
           ctype (padded_hidden_size c) = Inr l"
  shows "\<exists>outs w' lp0 lp3 pre philox scratch.
           dropout_add_ln_fwd env c w = (Inr outs, w') \<and>
           new_events w w' = pre @ [Launch l True lp0] @ philox @ scratch @ [Launch l False lp3] \<and>
           list_all is_output_alloc pre \<and>
           philox = (if float_less (Finite 0) (dropout_p c)
                     then [PhiloxState (get_generator_or_default (gen_opt c) (default_generator env))
                             (q_elts_per_thread (l lp0))]
                     else []) \<and>
           scratch = (if 0 < q_barrier_size (l lp0)
                      then [Zeros Buf_barrier
                              (new_tensor (is_cuda (x0 c)) [int (q_barrier_size (l lp0))] kInt32),
                            Empty Buf_workspace
                              (new_tensor (is_cuda (x0 c)) [int (q_workspace_bytes (l lp0))] kChar)]
                      else []) \<and>
           launches True (new_events w w') = [(l, lp0)] \<and>
           launches False (new_events w w') = [(l, lp3)] \<and>
           last (new_events w w') = Launch l False lp3 \<and>
           p_workspace (params lp0) = None \<and> p_barrier (params lp0) = None \<and>
           p_barrier (params lp3) =
             (if 0 < q_barrier_size (l lp0)
              then Some (new_tensor (is_cuda (x0 c)) [int (q_barrier_size (l lp0))] kInt32)
              else None) \<and>
           p_workspace (params lp3) =
             (if 0 < q_barrier_size (l lp0)
              then Some (new_tensor (is_cuda (x0 c)) [int (q_workspace_bytes (l lp0))] kChar)
              else None)"
proof -
  define lp0 where "lp0 = init_launch_params env c sv ob"
  define philox where "philox =
    (if float_less (Finite 0) (dropout_p c)
     then [PhiloxState (get_generator_or_default (gen_opt c) (default_generator env))
             (q_elts_per_thread (l lp0))]
     else [])"
  define scratch where "scratch =
    (if 0 < q_barrier_size (l lp0)
     then [Zeros Buf_barrier (new_tensor (is_cuda (x0 c)) [int (q_barrier_size (l lp0))] kInt32),
           Empty Buf_workspace (new_tensor (is_cuda (x0 c)) [int (q_workspace_bytes (l lp0))] kChar)]
     else [])"
  from alloc_outputs_events(2)[OF assms(2)] obtain pre where
    pre: "trace w1 = trace w @ pre" "list_all is_output_alloc pre" by blast
  from run_launch_shape[of env c sv ob l w1] obtain lp3 w' where
    r: "run_launch env c sv ob l w1 =
          (Inr [Some (o_z ob), o_x ob, o_dmask ob, Some (o_mu ob), Some (o_rsigma ob)], w')"
    and t: "trace w' = trace w1 @ [Launch l True lp0] @ philox @ scratch @ [Launch l False lp3]"
    and pw: "p_workspace (params lp3) =
             (if 0 < q_barrier_size (l lp0)
              then Some (new_tensor (is_cuda (x0 c)) [int (q_workspace_bytes (l lp0))] kChar)
              else None)"
    and pb: "p_barrier (params lp3) =
             (if 0 < q_barrier_size (l lp0)
              then Some (new_tensor (is_cuda (x0 c)) [int (q_barrier_size (l lp0))] kInt32)
              else None)"
    unfolding lp0_def philox_def scratch_def by blast
  have d: "dropout_add_ln_fwd env c w =
          (Inr [Some (o_z ob), o_x ob, o_dmask ob, Some (o_mu ob), Some (o_rsigma ob)], w')"
    using fwd_Inr_I[OF assms] r by simp
  have ne: "new_events w w' = pre @ [Launch l True lp0] @ philox @ scratch @ [Launch l False lp3]"
    unfolding new_events_def t pre(1) by simp
  have lph: "launches b philox = []" for b
    by (simp add: philox_def)
  have lsc: "launches b scratch = []" for b
    by (simp add: scratch_def)
  have lq: "launches True (new_events w w') = [(l, lp0)]"
    unfolding ne by (simp add: launches_append launches_output_allocs[OF pre(2)] lph lsc)
  have le: "launches False (new_events w w') = [(l, lp3)]"
    unfolding ne by (simp add: launches_append launches_output_allocs[OF pre(2)] lph lsc)
  have la: "last (new_events w w') = Launch l False lp3"
    unfolding ne by simp
  have u: "p_workspace (params lp0) = None" "p_barrier (params lp0) = None"
    by (simp_all add: lp0_def)
  show ?thesis
    apply (rule exI[where x="[Some (o_z ob), o_x ob, o_dmask ob, Some (o_mu ob), Some (o_rsigma ob)]"],
           rule exI[where x=w'], rule exI[where x=lp0], rule exI[where x=lp3],
           rule exI[where x=pre], rule exI[where x=philox], rule exI[where x=scratch])
    apply (intro conjI)
    apply (fact d ne pre(2) philox_def scratch_def lq le la u pb pw)+
    done
qed

text \<open>The theorem at hidden size 8192: a barrier of 4 and a workspace of 1024 bytes.\<close>

lemma ex_call_8192_validate: "validate ex_call_8192 = Inr [4, 8192]"
  by (simp add: ex_call_8192_def validate_defs ex_defs)

lemma ex_call_8192_launcher:
  "get_fwd_launcher (TypeId ex_env) (FWD_FUNCS ex_env) (wtype ex_call_8192)
     (itype ex_call_8192) (rtype ex_call_8192) (otype ex_call_8192) ctype
     (padded_hidden_size ex_call_8192) = Inr ex_launcher_wide"
  by (simp add: ex_call_8192_def lookup_defs ex_env_def ex_TypeId_def ex_tensor_def ex_call_def)

lemma ex_call_8192_alloc:
  "alloc_outputs ex_call_8192 [4, 8192] ex_world =
     (Inr \<lparr>o_z = ex_tensor kFloat32 [4, 8192], o_x = None, o_dmask = None,
           o_mu = ex_tensor kFloat32 [4], o_rsigma = ex_tensor kFloat32 [4]\<rparr>,
      record_events [Empty Buf_z (ex_tensor kFloat32 [4, 8192]),
                     Empty Buf_mu (ex_tensor kFloat32 [4]),
                     Empty Buf_rsigma (ex_tensor kFloat32 [4])] ex_world)"
  by (simp add: run_defs validate_defs ex_call_8192_def ex_call_def ex_tensor_def)

theorem query_then_execute_witness:
  "validate ex_call_8192 = Inr [4, 8192] \<and>
   float_less (dropout_p ex_call_8192) (Finite 1) \<and>
   get_fwd_launcher (TypeId ex_env) (FWD_FUNCS ex_env) (wtype ex_call_8192)
     (itype ex_call_8192) (rtype ex_call_8192) (otype ex_call_8192) ctype
     (padded_hidden_size ex_call_8192) = Inr ex_launcher_wide \<and>
   (\<exists>outs w' lp0 lp3.
      dropout_add_ln_fwd ex_env ex_call_8192 ex_world = (Inr outs, w') \<and>
      launches True (new_events ex_world w') = [(ex_launcher_wide, lp0)] \<and>
      launches False (new_events ex_world w') = [(ex_launcher_wide, lp3)] \<and>
      last (new_events ex_world w') = Launch ex_launcher_wide False lp3 \<and>
      Zeros Buf_barrier (ex_tensor kInt32 [4]) \<in> set (new_events ex_world w') \<and>
      Empty Buf_workspace (ex_tensor kChar [1024]) \<in> set (new_events ex_world w') \<and>
      p_barrier (params lp0) = None \<and> p_workspace (params lp0) = None \<and>
      p_barrier (params lp3) = Some (ex_tensor kInt32 [4]) \<and>
      p_workspace (params lp3) = Some (ex_tensor kChar [1024]))"
proof -
  have p: "float_less (dropout_p ex_call_8192) (Finite 1)"
    by (simp add: ex_call_8192_def ex_call_def)
  have np: "\<not> float_less (Finite 0) (dropout_p ex_call_8192)"
    by (simp add: ex_call_8192_def ex_call_def)
  have cu: "is_cuda (x0 ex_call_8192)"
    by (simp add: ex_call_8192_def ex_tensor_def)
  from query_then_execute[OF ex_call_8192_validate ex_call_8192_alloc p ex_call_8192_launcher]
  obtain outs w' lp0 lp3 pre philox scratch where
    d: "dropout_add_ln_fwd ex_env ex_call_8192 ex_world = (Inr outs, w')"
    and ne: "new_events ex_world w' =
               pre @ [Launch ex_launcher_wide True lp0] @ philox @ scratch
                   @ [Launch ex_launcher_wide False lp3]"
    and sc0: "scratch = (if 0 < q_barrier_size (ex_launcher_wide lp0)
                      then [Zeros Buf_barrier
                              (new_tensor (is_cuda (x0 ex_call_8192))
                                 [int (q_barrier_size (ex_launcher_wide lp0))] kInt32),
                            Empty Buf_workspace
                              (new_tensor (is_cuda (x0 ex_call_8192))
                                 [int (q_workspace_bytes (ex_launcher_wide lp0))] kChar)]
                      else [])"
    and l: "launches True (new_events ex_world w') = [(ex_launcher_wide, lp0)]"
      "launches False (new_events ex_world w') = [(ex_launcher_wide, lp3)]"
      "last (new_events ex_world w') = Launch ex_launcher_wide False lp3"
    and u: "p_workspace (params lp0) = None" "p_barrier (params lp0) = None"
    and b0: "p_barrier (params lp3) =
             (if 0 < q_barrier_size (ex_launcher_wide lp0)
              then Some (new_tensor (is_cuda (x0 ex_call_8192))
                           [int (q_barrier_size (ex_launcher_wide lp0))] kInt32)
              else None)"
    and ws0: "p_workspace (params lp3) =
             (if 0 < q_barrier_size (ex_launcher_wide lp0)
              then Some (new_tensor (is_cuda (x0 ex_call_8192))
                           [int (q_workspace_bytes (ex_launcher_wide lp0))] kChar)
              else None)"
    by blast
  have sc: "scratch = [Zeros Buf_barrier (ex_tensor kInt32 [4]),
                        Empty Buf_workspace (ex_tensor kChar [1024])]"
    using sc0 cu by (simp add: ex_launcher_wide_def new_tensor_def ex_tensor_def)
  have b: "p_barrier (params lp3) = Some (ex_tensor kInt32 [4])"
    using b0 cu by (simp add: ex_launcher_wide_def new_tensor_def ex_tensor_def)
  have ws: "p_workspace (params lp3) = Some (ex_tensor kChar [1024])"
    using ws0 cu by (simp add: ex_launcher_wide_def new_tensor_def ex_tensor_def)
  have m: "Zeros Buf_barrier (ex_tensor kInt32 [4]) \<in> set (new_events ex_world w')"
    "Empty Buf_workspace (ex_tensor kChar [1024]) \<in> set (new_events ex_world w')"
    unfolding ne sc by simp_all
  from ex_call_8192_validate p ex_call_8192_launcher d l m u b ws show ?thesis by blast
qed

section \<open>C8: the generator advances by the draw count\<close>

lemma fwd_success_rng:
  assumes "dropout_add_ln_fwd env c w = (Inr outs, w')"
  shows "\<exists>l lp0 lp3.
    launches True (new_events w w') = [(l, lp0)] \<and>
    launches False (new_events w w') = [(l, lp3)] \<and>
    elts_per_thread lp3 = q_elts_per_thread (l lp0) \<and>
    (\<forall>g n. PhiloxState g n \<in> set (new_events w w') \<longrightarrow>
       float_less (Finite 0) (dropout_p c) \<and>
       g = get_generator_or_default (gen_opt c) (default_generator env) \<and>
       n = q_elts_per_thread (l lp0)) \<and>
    (float_less (Finite 0) (dropout_p c) \<longrightarrow>
       PhiloxState (get_generator_or_default (gen_opt c) (default_generator env))
         (q_elts_per_thread (l lp0)) \<in> set (new_events w w')) \<and>
    gens w' =
       (if float_less (Finite 0) (dropout_p c)
        then (gens w)(get_generator_or_default (gen_opt c) (default_generator env) :=
               (gens w (get_generator_or_default (gen_opt c) (default_generator env)))
                 \<lparr>philox_offset_per_thread :=
                    philox_offset_per_thread
                      (gens w (get_generator_or_default (gen_opt c) (default_generator env)))
                    + q_elts_per_thread (l lp0)\<rparr>)
        else gens w) \<and>
    p_philox_args (params lp3) =
       (if float_less (Finite 0) (dropout_p c)
        then Some (seed (gens w (get_generator_or_default (gen_opt c) (default_generator env))),
                   philox_offset_per_thread
                     (gens w (get_generator_or_default (gen_opt c) (default_generator env))))
        else None)"
proof -
  from assms obtain sv ob l lp3 where
    ev: "new_events w w' =
       (if save_x c then [Empty Buf_x (new_tensor (is_cuda (x0 c)) (map int sv) (rtype c))] else [])
       @ (if float_less (Finite 0) (dropout_p c)
          then [Empty Buf_dmask (new_tensor (is_cuda (x0 c)) (map int (sizes (x0 c))) mtype)] else [])
       @ [Empty Buf_z (o_z ob), Empty Buf_mu (o_mu ob), Empty Buf_rsigma (o_rsigma ob)]
       @ [Launch l True (init_launch_params env c sv ob)]
       @ (if float_less (Finite 0) (dropout_p c)
          then [PhiloxState (get_generator_or_default (gen_opt c) (default_generator env))
                  (q_elts_per_thread (l (init_launch_params env c sv ob)))] else [])
       @ (if 0 < q_barrier_size (l (init_launch_params env c sv ob))
          then [Zeros Buf_barrier (new_tensor (is_cuda (x0 c))
                   [int (q_barrier_size (l (init_launch_params env c sv ob)))] kInt32),
                Empty Buf_workspace (new_tensor (is_cuda (x0 c))
                   [int (q_workspace_bytes (l (init_launch_params env c sv ob)))] kChar)] else [])
       @ [Launch l False lp3]"
    and g: "gens w' =
       (if float_less (Finite 0) (dropout_p c)
        then (gens w)(get_generator_or_default (gen_opt c) (default_generator env) :=
               (gens w (get_generator_or_default (gen_opt c) (default_generator env)))
                 \<lparr>philox_offset_per_thread :=
                    philox_offset_per_thread
                      (gens w (get_generator_or_default (gen_opt c) (default_generator env)))
                    + q_elts_per_thread (l (init_launch_params env c sv ob))\<rparr>)
        else gens w)"
    and ph: "p_philox_args (params lp3) =
       (if float_less (Finite 0) (dropout_p c)
        then Some (seed (gens w (get_generator_or_default (gen_opt c) (default_generator env))),
                   philox_offset_per_thread
                     (gens w (get_generator_or_default (gen_opt c) (default_generator env))))
        else None)"
    and el: "elts_per_thread lp3 = q_elts_per_thread (l (init_launch_params env c sv ob))"
    by (rule fwd_success)
  have a: "launches True (new_events w w') = [(l, init_launch_params env c sv ob)]"
    unfolding ev by (simp add: launches_append)
  have b: "launches False (new_events w w') = [(l, lp3)]"
    unfolding ev by (simp add: launches_append)
  have c: "\<forall>g n. PhiloxState g n \<in> set (new_events w w') \<longrightarrow>
       float_less (Finite 0) (dropout_p c) \<and>
       g = get_generator_or_default (gen_opt c) (default_generator env) \<and>
       n = q_elts_per_thread (l (init_launch_params env c sv ob))"
    unfolding ev by (auto split: if_splits)
  have d: "float_less (Finite 0) (dropout_p c) \<longrightarrow>
       PhiloxState (get_generator_or_default (gen_opt c) (default_generator env))
         (q_elts_per_thread (l (init_launch_params env c sv ob))) \<in> set (new_events w w')"
    unfolding ev by simp
  show ?thesis
    apply (rule exI[where x=l], rule exI[where x="init_launch_params env c sv ob"],
           rule exI[where x=lp3])
    apply (intro conjI)
    apply (fact a b el c d g ph)+
    done
qed

lemma ex_call_dropout_returns_any:
  "fst (dropout_add_ln_fwd ex_env ex_call_dropout w) =
     Inr [Some (ex_tensor kFloat32 [4, 256]), Some (ex_tensor kFloat32 [4, 256]),
          Some (ex_tensor kUInt8 [4, 256]), Some (ex_tensor kFloat32 [4]),
          Some (ex_tensor kFloat32 [4])]"
  unfolding dropout_add_ln_fwd_def
  apply (simp add: ex_call_dropout_validate ex_call_dropout_launcher bind_w_def lift_w_def check_all_def)
  apply (simp add: run_defs validate_defs Let_def ex_call_dropout_def ex_call_def ex_tensor_def)
  done

text \<open>
  Claim C8. In a call that returns, the generator is read and advanced if and only if
  dropout is active (the dropout probability is greater than 0): then the Execute phase
  is handed the seed and the offset the generator had, and the offset has grown by exactly
  the per-thread draw count the Query phase reported, with the seed and every other
  generator untouched; otherwise no generator changes and no seed and offset are issued.
  Hence, for two calls one right after the other, both with dropout active and drawing
  from the same generator, the second call is issued the same seed and an offset equal
  to, so not less than, the first call's offset plus the first call's draw count.
\<close>

theorem rng_counter_advances_by_draw_count:
  assumes r1: "dropout_add_ln_fwd env c1 w = (Inr o1, w1)"
    and r2: "dropout_add_ln_fwd env c2 w1 = (Inr o2, w2)"
  shows "\<exists>l1 q1 x1 l2 q2 x2.
     launches True (new_events w w1) = [(l1, q1)] \<and>
     launches False (new_events w w1) = [(l1, x1)] \<and>
     launches True (new_events w1 w2) = [(l2, q2)] \<and>
     launches False (new_events w1 w2) = [(l2, x2)] \<and>
     (\<exists>g n. PhiloxState g n \<in> set (new_events w w1)) = float_less (Finite 0) (dropout_p c1) \<and>
     (\<not> float_less (Finite 0) (dropout_p c1) \<longrightarrow>
        gens w1 = gens w \<and> p_philox_args (params x1) = None) \<and>
     (float_less (Finite 0) (dropout_p c1) \<longrightarrow>
        p_philox_args (params x1) =
          Some (seed (gens w (get_generator_or_default (gen_opt c1) (default_generator env))),
                philox_offset_per_thread
                  (gens w (get_generator_or_default (gen_opt c1) (default_generator env)))) \<and>
        philox_offset_per_thread
          (gens w1 (get_generator_or_default (gen_opt c1) (default_generator env))) =
        philox_offset_per_thread
          (gens w (get_generator_or_default (gen_opt c1) (default_generator env)))
        + q_elts_per_thread (l1 q1) \<and>
        seed (gens w1 (get_generator_or_default (gen_opt c1) (default_generator env))) =
        seed (gens w (get_generator_or_default (gen_opt c1) (default_generator env))) \<and>
        (\<forall>h. h \<noteq> get_generator_or_default (gen_opt c1) (default_generator env) \<longrightarrow>
           gens w1 h = gens w h)) \<and>
     (float_less (Finite 0) (dropout_p c1) \<and> float_less (Finite 0) (dropout_p c2) \<and>
      get_generator_or_default (gen_opt c2) (default_generator env) =
        get_generator_or_default (gen_opt c1) (default_generator env) \<longrightarrow>
        (\<exists>s off1 off2.
           p_philox_args (params x1) = Some (s, off1) \<and>
           p_philox_args (params x2) = Some (s, off2) \<and>
           off2 = off1 + q_elts_per_thread (l1 q1) \<and>
           off1 + q_elts_per_thread (l1 q1) \<le> off2))"
proof -
  define g1 where "g1 = get_generator_or_default (gen_opt c1) (default_generator env)"
  define g2 where "g2 = get_generator_or_default (gen_opt c2) (default_generator env)"
  from fwd_success_rng[OF r1] obtain l1 q1 x1 where
    a1: "launches True (new_events w w1) = [(l1, q1)]"
    and b1: "launches False (new_events w w1) = [(l1, x1)]"
    and c1: "\<forall>g n. PhiloxState g n \<in> set (new_events w w1) \<longrightarrow>
       float_less (Finite 0) (dropout_p c1) \<and> g = g1 \<and> n = q_elts_per_thread (l1 q1)"
    and d1: "float_less (Finite 0) (dropout_p c1) \<longrightarrow>
       PhiloxState g1 (q_elts_per_thread (l1 q1)) \<in> set (new_events w w1)"
    and e1: "gens w1 =
       (if float_less (Finite 0) (dropout_p c1)
        then (gens w)(g1 := (gens w g1)
                 \<lparr>philox_offset_per_thread :=
                    philox_offset_per_thread (gens w g1) + q_elts_per_thread (l1 q1)\<rparr>)
        else gens w)"
    and f1: "p_philox_args (params x1) =
       (if float_less (Finite 0) (dropout_p c1)
        then Some (seed (gens w g1), philox_offset_per_thread (gens w g1))
        else None)"
    unfolding g1_def by blast
  from fwd_success_rng[OF r2] obtain l2 q2 x2 where
    a2: "launches True (new_events w1 w2) = [(l2, q2)]"
    and b2: "launches False (new_events w1 w2) = [(l2, x2)]"
    and f2: "p_philox_args (params x2) =
       (if float_less (Finite 0) (dropout_p c2)
        then Some (seed (gens w1 g2), philox_offset_per_thread (gens w1 g2))
        else None)"
    unfolding g2_def by blast
  have i: "(\<exists>g n. PhiloxState g n \<in> set (new_events w w1)) = float_less (Finite 0) (dropout_p c1)"
    using c1 d1 by blast
  have ii: "\<not> float_less (Finite 0) (dropout_p c1) \<longrightarrow>
        gens w1 = gens w \<and> p_philox_args (params x1) = None"
    using e1 f1 by simp
  have iii: "float_less (Finite 0) (dropout_p c1) \<longrightarrow>
        p_philox_args (params x1) = Some (seed (gens w g1), philox_offset_per_thread (gens w g1)) \<and>
        philox_offset_per_thread (gens w1 g1) =
          philox_offset_per_thread (gens w g1) + q_elts_per_thread (l1 q1) \<and>
        seed (gens w1 g1) = seed (gens w g1) \<and>
        (\<forall>h. h \<noteq> g1 \<longrightarrow> gens w1 h = gens w h)"
    using e1 f1 by simp
  have iv: "float_less (Finite 0) (dropout_p c1) \<and> float_less (Finite 0) (dropout_p c2) \<and>
      g2 = g1 \<longrightarrow>
        (\<exists>s off1 off2.
           p_philox_args (params x1) = Some (s, off1) \<and>
           p_philox_args (params x2) = Some (s, off2) \<and>
           off2 = off1 + q_elts_per_thread (l1 q1) \<and>
           off1 + q_elts_per_thread (l1 q1) \<le> off2)"
    using e1 f1 f2 by simp
  show ?thesis
    apply (rule exI[where x=l1], rule exI[where x=q1], rule exI[where x=x1],
           rule exI[where x=l2], rule exI[where x=q2], rule exI[where x=x2])
    apply (intro conjI)
    apply (fact a1 b1 a2 b2 i ii iii[unfolded g1_def] iv[unfolded g1_def g2_def])+
    done
qed

text \<open>The theorem at the call with dropout, twice in a row from seed 42 and offset 100.\<close>

theorem rng_counter_advances_by_draw_count_witness:
  "\<exists>o1 w1 o2 w2 l1 q1 x1 l2 q2 x2.
     dropout_add_ln_fwd ex_env ex_call_dropout ex_world = (Inr o1, w1) \<and>
     dropout_add_ln_fwd ex_env ex_call_dropout w1 = (Inr o2, w2) \<and>
     float_less (Finite 0) (dropout_p ex_call_dropout) \<and>
     launches True (new_events ex_world w1) = [(l1, q1)] \<and>
     launches False (new_events ex_world w1) = [(l1, x1)] \<and>
     launches False (new_events w1 w2) = [(l2, x2)] \<and>
     p_philox_args (params x1) = Some (42, 100) \<and>
     (\<exists>off2. p_philox_args (params x2) = Some (42, off2) \<and>
             off2 = 100 + q_elts_per_thread (l1 q1))"
proof -
  define w1 where "w1 = snd (dropout_add_ln_fwd ex_env ex_call_dropout ex_world)"
  define w2 where "w2 = snd (dropout_add_ln_fwd ex_env ex_call_dropout w1)"
  define outs where "outs = [Some (ex_tensor kFloat32 [4, 256]), Some (ex_tensor kFloat32 [4, 256]),
          Some (ex_tensor kUInt8 [4, 256]), Some (ex_tensor kFloat32 [4]),
          Some (ex_tensor kFloat32 [4])]"
  have r1: "dropout_add_ln_fwd ex_env ex_call_dropout ex_world = (Inr outs, w1)"
    unfolding w1_def outs_def using ex_call_dropout_returns_any[of ex_world]
    by (metis prod.collapse)
  have r2: "dropout_add_ln_fwd ex_env ex_call_dropout w1 = (Inr outs, w2)"
    unfolding w2_def outs_def using ex_call_dropout_returns_any[of w1]
    by (metis prod.collapse)
  have p: "float_less (Finite 0) (dropout_p ex_call_dropout)"
    by (simp add: ex_call_dropout_def)
  have g: "gens ex_world (get_generator_or_default (gen_opt ex_call_dropout)
             (default_generator ex_env)) = \<lparr>seed = 42, philox_offset_per_thread = 100\<rparr>"
    by (simp add: ex_world_def)
  from rng_counter_advances_by_draw_count[OF r1 r2] p g r1 r2
  show ?thesis by auto
qed

section \<open>C9: what a failing call has allocated\<close>

lemma ex_call_p1_validate: "validate ex_call_p1 = Inr [4, 256]"
  by (simp add: ex_call_p1_def validate_defs ex_defs)

text \<open>
  Claim C9 says that a call violating any precondition, the bound on the dropout
  probability included, fails before any buffer is allocated. The check of \<open>dropout_p\<close>
  is at line 182, after the allocations of lines 170--176: at dropout probability 1 the
  call fails there with all five output buffers already allocated.
\<close>

theorem allocation_before_dropout_check_counterexample:
  "fst (dropout_add_ln_fwd ex_env ex_call_p1 ex_world) = Inl (CheckFailed 182) \<and>
   trace (snd (dropout_add_ln_fwd ex_env ex_call_p1 ex_world)) =
     [Empty Buf_x (ex_tensor kFloat32 [4, 256]), Empty Buf_dmask (ex_tensor kUInt8 [4, 256]),
      Empty Buf_z (ex_tensor kFloat32 [4, 256]), Empty Buf_mu (ex_tensor kFloat32 [4]),
      Empty Buf_rsigma (ex_tensor kFloat32 [4])]"
  unfolding dropout_add_ln_fwd_def
  apply (simp add: ex_call_p1_validate bind_w_def lift_w_def)
  apply (simp add: run_defs validate_defs check_all_def ex_call_p1_def ex_call_def ex_tensor_def
      ex_world_def)
  done

lemma ex_call_p1_alloc:
  "alloc_outputs ex_call_p1 [4, 256] ex_world =
     (Inr \<lparr>o_z = ex_tensor kFloat32 [4, 256], o_x = Some (ex_tensor kFloat32 [4, 256]),
           o_dmask = Some (ex_tensor kUInt8 [4, 256]),
           o_mu = ex_tensor kFloat32 [4], o_rsigma = ex_tensor kFloat32 [4]\<rparr>,
      ex_world\<lparr>trace :=
        [Empty Buf_x (ex_tensor kFloat32 [4, 256]), Empty Buf_dmask (ex_tensor kUInt8 [4, 256]),
         Empty Buf_z (ex_tensor kFloat32 [4, 256]), Empty Buf_mu (ex_tensor kFloat32 [4]),
         Empty Buf_rsigma (ex_tensor kFloat32 [4])]\<rparr>)"
  by (simp add: run_defs validate_defs ex_call_p1_def ex_call_def ex_tensor_def ex_world_def)

lemma ex_call_nan_validate: "validate ex_call_nan = Inr [4, 256]"
  by (simp add: ex_call_nan_def validate_defs ex_defs)

lemma ex_call_nan_alloc:
  "alloc_outputs ex_call_nan [4, 256] ex_world =
     (Inr \<lparr>o_z = ex_tensor kFloat32 [4, 256], o_x = None, o_dmask = None,
           o_mu = ex_tensor kFloat32 [4], o_rsigma = ex_tensor kFloat32 [4]\<rparr>,
      ex_world\<lparr>trace :=
        [Empty Buf_z (ex_tensor kFloat32 [4, 256]), Empty Buf_mu (ex_tensor kFloat32 [4]),
         Empty Buf_rsigma (ex_tensor kFloat32 [4])]\<rparr>)"
  by (simp add: run_defs validate_defs ex_call_nan_def ex_call_def ex_tensor_def ex_world_def)

text \<open>
  Claim C9, amended. A call that violates a precondition checked at lines 96--160 fails
  with the world unchanged: no buffer has been allocated. A call that passes these and
  violates the bound on the dropout probability fails too, but not before the
  allocations, since the bound is checked at line 182: when the output allocations
  succeed the call fails there, and by then the output, the mean and the inverse standard
  deviation have been allocated, together with the saved intermediate when it is needed
  and the mask when the dropout probability is greater than 0. Such a call returns no
  buffer, leaves the generator as it was, and records nothing but allocations of these
  five buffers: no scratch or barrier buffer is allocated and no launcher is called.
\<close>

theorem precondition_failures_and_allocations:
  "(\<forall>e. validate c = Inl e \<longrightarrow> dropout_add_ln_fwd env c w = (Inl e, w)) \<and>
   (\<forall>sv ob w1.
      validate c = Inr sv \<and> alloc_outputs c sv w = (Inr ob, w1) \<and>
      \<not> float_less (dropout_p c) (Finite 1) \<longrightarrow>
      dropout_add_ln_fwd env c w = (Inl (CheckFailed 182), w1) \<and>
      gens w1 = gens w \<and>
      new_events w w1 =
        (if save_x c then [Empty Buf_x (new_tensor (is_cuda (x0 c)) (map int sv) (rtype c))]
         else [])
        @ (if float_less (Finite 0) (dropout_p c)
           then [Empty Buf_dmask (new_tensor (is_cuda (x0 c)) (map int (sizes (x0 c))) mtype)]
           else [])
        @ [Empty Buf_z (o_z ob), Empty Buf_mu (o_mu ob), Empty Buf_rsigma (o_rsigma ob)]) \<and>
   (\<forall>sv. validate c = Inr sv \<and> \<not> float_less (dropout_p c) (Finite 1) \<longrightarrow>
      (\<exists>e w'. dropout_add_ln_fwd env c w = (Inl e, w') \<and> gens w' = gens w \<and>
              list_all is_output_alloc (new_events w w')))"
proof -
  have a: "dropout_add_ln_fwd env c w = (Inl e, w)" if "validate c = Inl e" for e
    using that by (simp add: dropout_add_ln_fwd_def bind_w_def lift_w_def)
  have b: "dropout_add_ln_fwd env c w = (Inl (CheckFailed 182), w1) \<and>
      gens w1 = gens w \<and>
      new_events w w1 =
        (if save_x c then [Empty Buf_x (new_tensor (is_cuda (x0 c)) (map int sv) (rtype c))]
         else [])
        @ (if float_less (Finite 0) (dropout_p c)
           then [Empty Buf_dmask (new_tensor (is_cuda (x0 c)) (map int (sizes (x0 c))) mtype)]
           else [])
        @ [Empty Buf_z (o_z ob), Empty Buf_mu (o_mu ob), Empty Buf_rsigma (o_rsigma ob)]"
    if v: "validate c = Inr sv" and al: "alloc_outputs c sv w = (Inr ob, w1)"
      and p: "\<not> float_less (dropout_p c) (Finite 1)" for sv ob w1
  proof -
    have 1: "dropout_add_ln_fwd env c w = (Inl (CheckFailed 182), w1)"
      using v al p by (simp add: dropout_add_ln_fwd_def bind_w_def lift_w_def check_all_def)
    have 2: "gens w1 = gens w"
      by (rule alloc_outputs_Inr(6)[OF al])
    have 3: "new_events w w1 =
        (if save_x c then [Empty Buf_x (new_tensor (is_cuda (x0 c)) (map int sv) (rtype c))]
         else [])
        @ (if float_less (Finite 0) (dropout_p c)
           then [Empty Buf_dmask (new_tensor (is_cuda (x0 c)) (map int (sizes (x0 c))) mtype)]
           else [])
        @ [Empty Buf_z (o_z ob), Empty Buf_mu (o_mu ob), Empty Buf_rsigma (o_rsigma ob)]"
      by (rule new_events_append[OF alloc_outputs_Inr(7)[OF al]])
    from 1 2 3 show ?thesis by blast
  qed
  have c: "\<exists>e w'. dropout_add_ln_fwd env c w = (Inl e, w') \<and> gens w' = gens w \<and>
              list_all is_output_alloc (new_events w w')"
    if v: "validate c = Inr sv" and p: "\<not> float_less (dropout_p c) (Finite 1)" for sv
  proof -
    obtain r w1 where al: "alloc_outputs c sv w = (r, w1)"
      by (cases "alloc_outputs c sv w") blast
    note g = alloc_outputs_events(1)[OF al] and o = new_events_output_allocs[OF al]
    show ?thesis
    proof (cases r)
      case (Inl e)
      with v al have "dropout_add_ln_fwd env c w = (Inl e, w1)"
        by (simp add: dropout_add_ln_fwd_def bind_w_def lift_w_def)
      with g o show ?thesis by blast
    next
      case (Inr ob)
      with b[OF v _ p] al have "dropout_add_ln_fwd env c w = (Inl (CheckFailed 182), w1)"
        by simp
      with g o show ?thesis by blast
    qed
  qed
  show ?thesis using a b c by blast
qed

text \<open>
  The theorem at a negative epsilon (nothing allocated), at dropout probability 1 (five
  buffers allocated) and at a dropout probability that is not a number (three).
\<close>

theorem precondition_failures_and_allocations_witness:
  "validate ex_call_neg_eps = Inl (CheckFailed 160) \<and>
   dropout_add_ln_fwd ex_env ex_call_neg_eps ex_world = (Inl (CheckFailed 160), ex_world) \<and>
   validate ex_call_p1 = Inr [4, 256] \<and> \<not> float_less (dropout_p ex_call_p1) (Finite 1) \<and>
   dropout_add_ln_fwd ex_env ex_call_p1 ex_world =
     (Inl (CheckFailed 182),
      ex_world\<lparr>trace :=
        [Empty Buf_x (ex_tensor kFloat32 [4, 256]), Empty Buf_dmask (ex_tensor kUInt8 [4, 256]),
         Empty Buf_z (ex_tensor kFloat32 [4, 256]), Empty Buf_mu (ex_tensor kFloat32 [4]),
         Empty Buf_rsigma (ex_tensor kFloat32 [4])]\<rparr>) \<and>
   validate ex_call_nan = Inr [4, 256] \<and> \<not> float_less (dropout_p ex_call_nan) (Finite 1) \<and>
   dropout_add_ln_fwd ex_env ex_call_nan ex_world =
     (Inl (CheckFailed 182),
      ex_world\<lparr>trace :=
        [Empty Buf_z (ex_tensor kFloat32 [4, 256]), Empty Buf_mu (ex_tensor kFloat32 [4]),
         Empty Buf_rsigma (ex_tensor kFloat32 [4])]\<rparr>)"
proof -
  have v: "validate ex_call_neg_eps = Inl (CheckFailed 160)"
    by (simp add: ex_call_neg_eps_def validate_defs ex_defs)
  have p: "\<not> float_less (dropout_p ex_call_p1) (Finite 1)"
    by (simp add: ex_call_p1_def)
  have n: "\<not> float_less (dropout_p ex_call_nan) (Finite 1)"
    by (simp add: ex_call_nan_def)
  from precondition_failures_and_allocations[of ex_call_neg_eps ex_env ex_world] v
  have 1: "dropout_add_ln_fwd ex_env ex_call_neg_eps ex_world = (Inl (CheckFailed 160), ex_world)"
    by blast
  from precondition_failures_and_allocations[of ex_call_p1 ex_env ex_world]
    ex_call_p1_validate ex_call_p1_alloc p
  have 2: "dropout_add_ln_fwd ex_env ex_call_p1 ex_world =
     (Inl (CheckFailed 182),
      ex_world\<lparr>trace :=
        [Empty Buf_x (ex_tensor kFloat32 [4, 256]), Empty Buf_dmask (ex_tensor kUInt8 [4, 256]),
         Empty Buf_z (ex_tensor kFloat32 [4, 256]), Empty Buf_mu (ex_tensor kFloat32 [4]),
         Empty Buf_rsigma (ex_tensor kFloat32 [4])]\<rparr>)"
    by blast
  from precondition_failures_and_allocations[of ex_call_nan ex_env ex_world]
    ex_call_nan_validate ex_call_nan_alloc n
  have 3: "dropout_add_ln_fwd ex_env ex_call_nan ex_world =
     (Inl (CheckFailed 182),
      ex_world\<lparr>trace :=
        [Empty Buf_z (ex_tensor kFloat32 [4, 256]), Empty Buf_mu (ex_tensor kFloat32 [4]),
         Empty Buf_rsigma (ex_tensor kFloat32 [4])]\<rparr>)"
    by blast
  from v 1 ex_call_p1_validate p 2 ex_call_nan_validate n 3 show ?thesis by blast
qed

section \<open>C10: the extents of the returned buffers under row gathering\<close>

lemma sizes_vec_subset:
  assumes "sizes_vec c = Inr sv" "x0_subset_opt c = Some xs"
  shows "sv = [sizes xs ! 0, sizes (x0 c) ! 1]"
  using assms
  by (auto simp: sizes_vec_def and_then_Inr_iff size_at_def split: if_splits)

lemma map_nat_int: "map nat (map int xs) = xs"
  by (induction xs) simp_all

lemma sizes_new_tensor_nat: "sizes (new_tensor on (map int xs) dt) = xs"
  unfolding new_tensor_def using map_nat_int by simp

text \<open>
  Claim C10. When the row-gather index is present and dropout is active, a returning call
  returns five defined tensors. The dropout mask has the extents of the input \<open>x0\<close>
  itself, so as many rows as the physical input; the saved intermediate has as many rows
  as the gather index has entries, and the columns of the input; the mean and the inverse
  standard deviation have as many entries as the gather index. The output has
  \<open>z_numrows\<close> rows. So the mask is the only returned buffer whose row extent is that of
  the physical input.
\<close>

theorem mask_follows_physical_input:
  assumes r: "dropout_add_ln_fwd env c w = (Inr outs, w')"
    and s: "x0_subset_opt c = Some xs"
    and p: "float_less (Finite 0) (dropout_p c)"
  shows "\<exists>z x dmask mu rsigma n.
           outs = [Some z, Some x, Some dmask, Some mu, Some rsigma] \<and>
           sizes xs = [n] \<and>
           length (sizes (x0 c)) = 2 \<and>
           sizes dmask = sizes (x0 c) \<and>
           sizes x = [n, sizes (x0 c) ! 1] \<and>
           sizes mu = [n] \<and>
           sizes rsigma = [n] \<and>
           sizes z = [nat (z_numrows c), numel (gamma c)]"
proof (rule fwd_success[OF r])
  fix sv ob l lp3
  assume v: "validate c = Inr sv"
    and ox: "o_x ob = (if save_x c then Some (new_tensor (is_cuda (x0 c)) (map int sv) (rtype c))
                       else None)"
    and od: "o_dmask ob = (if float_less (Finite 0) (dropout_p c)
                   then Some (new_tensor (is_cuda (x0 c)) (map int (sizes (x0 c))) mtype) else None)"
    and oz: "o_z ob = new_tensor (is_cuda (x0 c))
                (if has_value (z_subset_opt c) then [z_numrows c, cols_of sv] else map int sv) (otype c)"
    and om: "o_mu ob = new_tensor (is_cuda (x0 c)) [rows_of sv] ctype"
    and os: "o_rsigma ob = new_tensor (is_cuda (x0 c)) [rows_of sv] ctype"
    and outs: "outs = [Some (o_z ob), o_x ob, o_dmask ob, Some (o_mu ob), Some (o_rsigma ob)]"
  from gather_index_present_checks_both[OF v s] obtain zs where
    zs: "z_subset_opt c = Some zs" and xr: "map int (sizes xs) = [rows_of sv]"
    by auto
  from xr obtain n where n: "sizes xs = [n]" "rows_of sv = int n"
    by (cases "sizes xs") auto
  have sv: "sv = [n, sizes (x0 c) ! 1]"
    using sizes_vec_subset[OF validate_Inr_D(4)[OF v] s] n(1) by simp
  have d2: "length (sizes (x0 c)) = 2"
    using validate_Inr_D(5)[OF v] by (simp add: dim_def)
  have sx: "save_x c"
    using p by (simp add: save_x_def)
  have cols: "cols_of sv = int (numel (gamma c))"
    using validate_Inr_D(6)[OF v] by (simp add: hidden_size_def)
  have 1: "sizes (new_tensor (is_cuda (x0 c)) (map int (sizes (x0 c))) mtype) = sizes (x0 c)"
    by (rule sizes_new_tensor_nat)
  have 2: "sizes (new_tensor (is_cuda (x0 c)) (map int sv) (rtype c)) = [n, sizes (x0 c) ! 1]"
    using sizes_new_tensor_nat[of "is_cuda (x0 c)" sv "rtype c"] sv by simp
  have 3: "sizes (o_mu ob) = [n]" "sizes (o_rsigma ob) = [n]"
    by (simp_all add: om os new_tensor_def n(2))
  have 4: "sizes (o_z ob) = [nat (z_numrows c), numel (gamma c)]"
    by (simp add: oz zs has_value_def new_tensor_def cols)
  show ?thesis
    apply (rule exI[where x="o_z ob"],
           rule exI[where x="new_tensor (is_cuda (x0 c)) (map int sv) (rtype c)"],
           rule exI[where x="new_tensor (is_cuda (x0 c)) (map int (sizes (x0 c))) mtype"],
           rule exI[where x="o_mu ob"], rule exI[where x="o_rsigma ob"], rule exI[where x=n])
    using outs ox od sx p n(1) d2 1 2 3 4 by simp
qed

text \<open>The theorem at a gather index of two entries on an input of four rows.\<close>

lemma ex_call_subset_validate: "validate ex_call_subset = Inr [2, 256]"
  by (simp add: ex_call_subset_def validate_defs ex_defs)

lemma ex_call_subset_launcher:
  "get_fwd_launcher (TypeId ex_env) (FWD_FUNCS ex_env) (wtype ex_call_subset)
     (itype ex_call_subset) (rtype ex_call_subset) (otype ex_call_subset) ctype
     (padded_hidden_size ex_call_subset) = Inr ex_launcher"
  by (simp add: ex_call_subset_def lookup_defs ex_env_def ex_TypeId_def ex_tensor_def ex_call_def)

lemma ex_call_subset_returns:
  "fst (dropout_add_ln_fwd ex_env ex_call_subset ex_world) =
     Inr [Some (ex_tensor kFloat32 [3, 256]), Some (ex_tensor kFloat32 [2, 256]),
          Some (ex_tensor kUInt8 [4, 256]), Some (ex_tensor kFloat32 [2]),
          Some (ex_tensor kFloat32 [2])]"
  unfolding dropout_add_ln_fwd_def
  apply (simp add: ex_call_subset_validate ex_call_subset_launcher bind_w_def lift_w_def check_all_def)
  apply (simp add: run_defs validate_defs Let_def ex_call_subset_def ex_call_def ex_tensor_def)
  done

theorem mask_follows_physical_input_witness:
  "dropout_add_ln_fwd ex_env ex_call_subset ex_world =
     (Inr [Some (ex_tensor kFloat32 [3, 256]), Some (ex_tensor kFloat32 [2, 256]),
           Some (ex_tensor kUInt8 [4, 256]), Some (ex_tensor kFloat32 [2]),
           Some (ex_tensor kFloat32 [2])],
      snd (dropout_add_ln_fwd ex_env ex_call_subset ex_world)) \<and>
   x0_subset_opt ex_call_subset = Some (ex_tensor kInt32 [2]) \<and>
   float_less (Finite 0) (dropout_p ex_call_subset) \<and>
   sizes (x0 ex_call_subset) = [4, 256] \<and>
   sizes (ex_tensor kUInt8 [4, 256]) = sizes (x0 ex_call_subset) \<and>
   sizes (ex_tensor kFloat32 [2, 256]) = [2, sizes (x0 ex_call_subset) ! 1]"
proof -
  have r: "dropout_add_ln_fwd ex_env ex_call_subset ex_world =
     (Inr [Some (ex_tensor kFloat32 [3, 256]), Some (ex_tensor kFloat32 [2, 256]),
           Some (ex_tensor kUInt8 [4, 256]), Some (ex_tensor kFloat32 [2]),
           Some (ex_tensor kFloat32 [2])],
      snd (dropout_add_ln_fwd ex_env ex_call_subset ex_world))"
    using ex_call_subset_returns by (metis prod.collapse)
  have s: "x0_subset_opt ex_call_subset = Some (ex_tensor kInt32 [2])"
    by (simp add: ex_call_subset_def)
  have p: "float_less (Finite 0) (dropout_p ex_call_subset)"
    by (simp add: ex_call_subset_def)
  have x: "sizes (x0 ex_call_subset) = [4, 256]"
    by (simp add: ex_call_subset_def ex_call_def ex_tensor_def)
  from mask_follows_physical_input[OF r s p] r s p x show ?thesis
    by (auto simp: ex_tensor_def)
qed

end
